theory Spec2Isabelle
  imports Complex_Main "HOL-Library.List_Lexorder" "HOL-Library.Char_ord"
begin

section \<open>Paths and the file system (pathlib)\<close>

text \<open>
  A path is the list of its components; the last one is its name. Python compares
  POSIX \<open>Path\<close> objects by their components, each as a string by code point; that is
  the lexicographic order on \<open>string list\<close>, which \<open>csv_filenames.sort()\<close> uses.
\<close>

type_synonym path = "string list"

definition path_name :: "path \<Rightarrow> string" where
  "path_name p = (if p = [] then [] else last p)"

definition quote :: "string \<Rightarrow> string" where
  \<comment> \<open>the text between single quotes, as the f-strings of both scripts write it\<close>
  "quote s = [CHR 0x27] @ s @ [CHR 0x27]"

fun join :: "string \<Rightarrow> string list \<Rightarrow> string" where
  "join sep [] = []"
| "join sep [x] = x"
| "join sep (x # y # ys) = x @ sep @ join sep (y # ys)"

definition str_path :: "path \<Rightarrow> string" where
  \<comment> \<open>\<open>str(path)\<close>\<close>
  "str_path p = (if p = [] then ''.'' else join ''/'' p)"

fun startswith :: "string \<Rightarrow> string \<Rightarrow> bool" where
  "startswith s [] = True"
| "startswith [] (c # cs) = False"
| "startswith (x # xs) (c # cs) = (x = c \<and> startswith xs cs)"

fun rfind_dot :: "string \<Rightarrow> nat option" where
  \<comment> \<open>\<open>name.rfind('.')\<close>, None for Python's -1\<close>
  "rfind_dot [] = None"
| "rfind_dot (c # cs) =
     (case rfind_dot cs of
        Some i \<Rightarrow> Some (Suc i)
      | None \<Rightarrow> if c = CHR ''.'' then Some 0 else None)"

definition suffix_of :: "string \<Rightarrow> string" where
  \<comment> \<open>\<open>PurePath.suffix\<close>: from the last dot on, unless that dot is first or last in the name\<close>
  "suffix_of n =
     (case rfind_dot n of
        None \<Rightarrow> []
      | Some i \<Rightarrow> if 0 < i \<and> i < length n - 1 then drop i n else [])"

definition with_name :: "path \<Rightarrow> string \<Rightarrow> path" where
  "with_name p n = butlast p @ [n]"

definition with_suffix :: "path \<Rightarrow> string \<Rightarrow> path" where
  \<comment> \<open>\<open>PurePath.with_suffix\<close>: the old suffix, when there is one, is replaced. Both scripts
      apply it to results of \<open>glob\<close> only, whose names are not empty.\<close>
  "with_suffix p s =
     (let n = path_name p; old = suffix_of n
      in with_name p (take (length n - length old) n @ s))"

text \<open>
  The file system: every path that exists, with what is there, in the order
  \<open>os.scandir\<close> lists it. A file is its bytes, so its size is their number; a
  directory has the size \<open>stat\<close> reports for it.
\<close>

datatype node = File string | Dir nat

type_synonym filesystem = "(path \<times> node) list"

definition path_exists :: "filesystem \<Rightarrow> path \<Rightarrow> bool" where
  "path_exists fs p = (map_of fs p \<noteq> None)"

definition is_dir :: "filesystem \<Rightarrow> path \<Rightarrow> bool" where
  "is_dir fs p = (case map_of fs p of Some (Dir n) \<Rightarrow> True | _ \<Rightarrow> False)"

definition st_size :: "filesystem \<Rightarrow> path \<Rightarrow> nat" where
  \<comment> \<open>\<open>path.stat().st_size\<close>; the scripts call it on paths \<open>glob\<close> has just returned or
      \<open>to_parquet\<close> has just written, which exist\<close>
  "st_size fs p =
     (case map_of fs p of Some (File b) \<Rightarrow> length b | Some (Dir n) \<Rightarrow> n | None \<Rightarrow> 0)"

definition read_bytes :: "filesystem \<Rightarrow> path \<Rightarrow> string option" where
  "read_bytes fs p = (case map_of fs p of Some (File b) \<Rightarrow> Some b | _ \<Rightarrow> None)"

fun store :: "path \<Rightarrow> string \<Rightarrow> filesystem \<Rightarrow> filesystem" where
  \<comment> \<open>a file created, or its bytes replaced where it stands\<close>
  "store p b [] = [(p, File b)]"
| "store p b ((q, n) # fs) = (if q = p then (p, File b) # fs else (q, n) # store p b fs)"

definition scandir :: "filesystem \<Rightarrow> path \<Rightarrow> string list" where
  \<comment> \<open>the names in a directory; nothing for what is not a directory\<close>
  "scandir fs d =
     (if is_dir fs d
      then remdups (map last (filter (\<lambda>p. p \<noteq> [] \<and> butlast p = d) (map fst fs)))
      else [])"

subsection \<open>Glob patterns\<close>

text \<open>
  \<open>Path.glob\<close> with a pattern of one component lists the directory and keeps the names
  that match as \<open>fnmatch\<close> does, case-sensitively: \<open>*\<close> any run of characters,
  \<open>?\<close> one character, \<open>[seq]\<close> and \<open>[!seq]\<close> a character in or not in a class
  with ranges. A leading dot is not special to pathlib. Some patterns make the call
  raise: the empty pattern (ValueError), the pattern \<open>.\<close>, which pathlib parses
  to no component at all (IndexError up to Python 3.11, ValueError from 3.12), and a
  component that holds \<open>**\<close> without being it (ValueError). Three kinds of
  pattern are outside this model, which gives no result for them but the mark
  \<open>Unsupported\<close>: a pattern with a separator and the pattern \<open>**\<close>, which walk more
  than one level, and the pattern \<open>..\<close>, which selects the entry \<open>d/..\<close>, a path this
  file system does not resolve. No theorem below says anything about a run with such
  a pattern.
\<close>

datatype glob_token = Star | Question | Class bool string | Literal char

fun class_body :: "string \<Rightarrow> string option" where
  \<comment> \<open>the characters up to the closing bracket, None when there is none\<close>
  "class_body [] = None"
| "class_body (c # cs) =
     (if c = CHR '']'' then Some [] else map_option (\<lambda>b. c # b) (class_body cs))"

definition class_stuff :: "string \<Rightarrow> string option" where
  \<comment> \<open>what stands between the brackets: a leading \<open>!\<close> and a first \<open>]\<close> do not close the class\<close>
  "class_stuff cs =
     (let neg = (if startswith cs ''!'' then ''!'' else []);
          r1 = drop (length neg) cs;
          fst_br = (if startswith r1 '']'' then '']'' else []);
          r2 = drop (length fst_br) r1
      in map_option (\<lambda>b. neg @ fst_br @ b) (class_body r2))"

fun glob_tokens :: "string \<Rightarrow> glob_token list" where
  "glob_tokens [] = []"
| "glob_tokens (c # cs) =
     (if c = CHR ''*'' then Star # glob_tokens cs
      else if c = CHR ''?'' then Question # glob_tokens cs
      else if c = CHR ''['' then
        (case class_stuff cs of
           None \<Rightarrow> Literal c # glob_tokens cs
         | Some stuff \<Rightarrow>
             (if startswith stuff ''!'' then Class False (tl stuff) else Class True stuff)
               # glob_tokens (drop (Suc (length stuff)) cs))
      else Literal c # glob_tokens cs)"

fun in_class :: "string \<Rightarrow> char \<Rightarrow> bool" where
  "in_class [] c = False"
| "in_class [a] c = (a = c)"
| "in_class [a, b] c = (a = c \<or> b = c)"
| "in_class (a # m # b # rest) c =
     (if m = CHR ''-'' then (a \<le> c \<and> c \<le> b) \<or> in_class rest c
      else a = c \<or> in_class (m # b # rest) c)"

fun matches :: "glob_token list \<Rightarrow> string \<Rightarrow> bool" where
  "matches [] s = (s = [])"
| "matches (Star # ts) [] = matches ts []"
| "matches (Star # ts) (c # cs) = (matches ts (c # cs) \<or> matches (Star # ts) cs)"
| "matches (Question # ts) [] = False"
| "matches (Question # ts) (c # cs) = matches ts cs"
| "matches (Class pos stuff # ts) [] = False"
| "matches (Class pos stuff # ts) (c # cs) = ((in_class stuff c = pos) \<and> matches ts cs)"
| "matches (Literal l # ts) [] = False"
| "matches (Literal l # ts) (c # cs) = (l = c \<and> matches ts cs)"

definition fnmatch :: "string \<Rightarrow> string \<Rightarrow> bool" where
  "fnmatch n pat = matches (glob_tokens pat) n"

fun has_double_star :: "string \<Rightarrow> bool" where
  "has_double_star (a # b # cs) = ((a = CHR ''*'' \<and> b = CHR ''*'') \<or> has_double_star (b # cs))"
| "has_double_star cs = False"

datatype call =
    Glob path string | IsDir path | Exists path | Stat path
  | ReadCsv path | NumpyLoad path | ToParquet path | WriteText path | Open path

datatype error =
    Exception string
  | AttributeError string
  | NameError string
  | ValueError string
  | IndexError string
  | ZeroDivisionError
  | Unsupported string
  | LibraryError call

definition glob :: "filesystem \<Rightarrow> path \<Rightarrow> string \<Rightarrow> error + path list" where
  "glob fs d pat =
     (if pat = [] then Inl (ValueError ''Unacceptable pattern'')
      else if pat = ''.'' then Inl (IndexError ''tuple index out of range'')
      else if CHR ''/'' \<in> set pat \<or> pat = ''**'' \<or> pat = ''..'' then Inl (Unsupported pat)
      else if has_double_star pat then Inl (ValueError ''Invalid pattern'')
      else Inr (map (\<lambda>n. d @ [n]) (filter (\<lambda>n. fnmatch n pat) (scandir fs d))))"

section \<open>Tables (pandas) and the libraries both scripts call\<close>

text \<open>
  A table has a number of rows and named, typed columns. The values of the cells are of
  a type \<open>'v\<close> this development never looks into: parsing, floating-point conversion
  and the Parquet encoding belong to the libraries. Those are the fields of \<open>library\<close>,
  and every theorem holds for whatever they compute.
\<close>

text \<open>
  The dtypes: those \<open>read_csv\<close> infers for a column (int64, uint64 for integers above
  the signed range, float64, bool, datetime64 for a parsed date column, object for the
  rest) and the two 32-bit dtypes the tabular script casts to.
\<close>

datatype dtype = Float64 | Float32 | Int64 | Int32 | UInt64 | Bool | Datetime64 | Object

fun itemsize :: "dtype \<Rightarrow> nat" where
  "itemsize Float64 = 8"
| "itemsize Float32 = 4"
| "itemsize Int64 = 8"
| "itemsize Int32 = 4"
| "itemsize UInt64 = 8"
| "itemsize Bool = 1"
| "itemsize Datetime64 = 8"
| "itemsize Object = 8"

fun is_numeric :: "dtype \<Rightarrow> bool" where
  \<comment> \<open>the dtypes numpy calls numbers\<close>
  "is_numeric Float64 = True"
| "is_numeric Float32 = True"
| "is_numeric Int64 = True"
| "is_numeric Int32 = True"
| "is_numeric UInt64 = True"
| "is_numeric Bool = False"
| "is_numeric Datetime64 = False"
| "is_numeric Object = False"

datatype 'v column = Column (column_name: string) (column_dtype: dtype) (cells: "'v list")

datatype 'v dataframe = DataFrame (nrows: nat) (columns: "'v column list")

datatype 'v ndarray =
    Matrix dtype nat "'v list list"
    \<comment> \<open>a 2-D array: the dtype of its elements, its number of rows, and its columns
        \<open>array[:, 0]\<close>, \<open>array[:, 1]\<close>, ...\<close>
  | OtherArray
    \<comment> \<open>anything else \<open>numpy.load\<close> returns (an array of another dimension), from which
        \<open>array[:, idx]\<close> gives no column of a table\<close>

text \<open>
  The format the array script loads, as a record of the three keys of
  \<open>NPY_FORMAT_DEFAULT\<close>: a YAML text that lacks one of the keys, on which the script
  raises KeyError inside its \<open>try\<close>, is not a value of this type.
\<close>

record npy_format =
  format_columns :: "string list"
  date_column :: "(string \<times> string) list"
  float32 :: bool

record 'v library =
  read_csv :: "string \<Rightarrow> string option \<Rightarrow> string option \<Rightarrow> 'v dataframe option"
    \<comment> \<open>\<open>pandas.read_csv\<close> on the bytes of a file, with \<open>parse_dates\<close> and \<open>index_col\<close>;
        None when it raises\<close>
  nan :: 'v
  common_dtype :: "dtype option list \<Rightarrow> dtype"
    \<comment> \<open>the dtype \<open>pandas.concat\<close> gives a column, from its dtype in each table (None where
        the table lacks it)\<close>
  convert :: "dtype \<Rightarrow> dtype \<Rightarrow> 'v \<Rightarrow> 'v"
    \<comment> \<open>\<open>astype\<close> on one value, from a dtype to another\<close>
  to_parquet :: "'v column list \<Rightarrow> string \<Rightarrow> string \<Rightarrow> string option"
    \<comment> \<open>the bytes \<open>DataFrame.to_parquet(index=False)\<close> writes with an engine and a
        compression; None when it raises\<close>
  numpy_load :: "string \<Rightarrow> 'v ndarray option"
  to_datetime :: "dtype \<Rightarrow> 'v list \<Rightarrow> string \<Rightarrow> 'v list option"
    \<comment> \<open>\<open>pandas.to_datetime(series, unit=...)\<close>; None when it raises\<close>
  safe_load :: "string \<Rightarrow> npy_format option"

fun unique :: "'a list \<Rightarrow> 'a list" where
  \<comment> \<open>each element once, where it first stands\<close>
  "unique [] = []"
| "unique (x # xs) = x # unique (filter (\<lambda>y. y \<noteq> x) xs)"

definition find_column :: "string \<Rightarrow> 'v dataframe \<Rightarrow> 'v column option" where
  "find_column n df = find (\<lambda>c. column_name c = n) (columns df)"

definition concat_column :: "'v library \<Rightarrow> 'v dataframe list \<Rightarrow> string \<Rightarrow> 'v column" where
  "concat_column lib dfs n =
     (let target = common_dtype lib (map (\<lambda>df. map_option column_dtype (find_column n df)) dfs)
      in Column n target
           (concat (map (\<lambda>df. case find_column n df of
                                 None \<Rightarrow> replicate (nrows df) (nan lib)
                               | Some c \<Rightarrow> map (convert lib (column_dtype c) target) (cells c))
                        dfs)))"

definition pandas_concat :: "'v library \<Rightarrow> 'v dataframe list \<Rightarrow> 'v dataframe" where
  \<comment> \<open>\<open>pandas.concat(dataframes)\<close>: rows stacked in the order of the list, the columns the
      union of the tables' columns, a table's missing column filled with NaN. The tables
      come from \<open>read_csv\<close>, which gives each column of a table its own name.\<close>
  "pandas_concat lib dfs =
     DataFrame (sum_list (map nrows dfs))
       (map (concat_column lib dfs) (unique (concat (map (\<lambda>df. map column_name (columns df)) dfs))))"

definition astype :: "'v library \<Rightarrow> dtype \<Rightarrow> 'v column \<Rightarrow> 'v column" where
  "astype lib t c = Column (column_name c) t (map (convert lib (column_dtype c) t) (cells c))"

definition downcast :: "'v library \<Rightarrow> 'v dataframe \<Rightarrow> 'v dataframe" where
  \<comment> \<open>the two loops over \<open>select_dtypes('float64')\<close> and \<open>select_dtypes('int64')\<close>\<close>
  "downcast lib df =
     (let floats = map (\<lambda>c. if column_dtype c = Float64 then astype lib Float32 c else c) (columns df);
          ints = map (\<lambda>c. if column_dtype c = Int64 then astype lib Int32 c else c) floats
      in DataFrame (nrows df) ints)"

definition replace_spaces :: "string \<Rightarrow> string" where
  \<comment> \<open>\<open>column.replace(' ', '_')\<close>\<close>
  "replace_spaces s = map (\<lambda>c. if c = CHR '' '' then CHR ''_'' else c) s"

definition rename_columns :: "'v dataframe \<Rightarrow> 'v dataframe" where
  "rename_columns df =
     DataFrame (nrows df)
       (map (\<lambda>c. Column (replace_spaces (column_name c)) (column_dtype c) (cells c)) (columns df))"

section \<open>What a run keeps: the counters of both scripts\<close>

datatype message =
    Line string
  | ConvertedSmaller nat rat
    \<comment> \<open>"{n} converted file(s) are smaller by a factor of {original_sizes / parquet_sizes}"\<close>
  | SkippedExisting nat
    \<comment> \<open>"No files converted, but {n} pre-existing Parquet file(s) skipped"\<close>
  | NoFilesConverted
    \<comment> \<open>"No files converted."\<close>

record arguments =
  start_directory :: path
  overwrite :: bool
  parquet_engine :: string
  parquet_compression :: string

record run_state =
  fs :: filesystem
  calls :: "call list"
  stdout :: "message list"
  original_sizes :: nat
  parquet_sizes :: nat
  num_files_converted :: nat
  num_files_skipped :: nat

text \<open>
  A step either raises, and the run stops there with the world as it then is, or it
  goes on with a new state.
\<close>

type_synonym ('s, 'a) result = "(error \<times> 's) + 'a"

definition trace :: "call \<Rightarrow> 'a run_state_scheme \<Rightarrow> 'a run_state_scheme" where
  "trace c st = st\<lparr>calls := calls st @ [c]\<rparr>"

definition print :: "message \<Rightarrow> 'a run_state_scheme \<Rightarrow> 'a run_state_scheme" where
  "print m st = st\<lparr>stdout := stdout st @ [m]\<rparr>"

fun for_each :: "('a \<Rightarrow> 's \<Rightarrow> ('s, 's) result) \<Rightarrow> 'a list \<Rightarrow> 's \<Rightarrow> ('s, 's) result" where
  "for_each body [] st = Inr st"
| "for_each body (x # xs) st =
     (case body x st of Inl e \<Rightarrow> Inl e | Inr st' \<Rightarrow> for_each body xs st')"

definition glob_list ::
  "path \<Rightarrow> string \<Rightarrow> 'a run_state_scheme \<Rightarrow> ('a run_state_scheme, path list \<times> 'a run_state_scheme) result" where
  \<comment> \<open>\<open>list(directory.glob(pattern))\<close>\<close>
  "glob_list d pat st =
     (let st1 = trace (Glob d pat) st
      in case glob (fs st1) d pat of
           Inl e \<Rightarrow> Inl (e, st1)
         | Inr items \<Rightarrow> Inr (items, st1))"

definition write_parquet ::
  "'v library \<Rightarrow> 'b arguments_scheme \<Rightarrow> path \<Rightarrow> 'v dataframe \<Rightarrow> 'a run_state_scheme
     \<Rightarrow> ('a run_state_scheme, 'a run_state_scheme) result" where
  \<comment> \<open>\<open>dataframe.to_parquet(parquet_filename, index=False, engine=..., compression=...)\<close>:
      the encoder may refuse, and a directory cannot be written over. A write that raises
      is taken to leave the file system as it was; what a real encoder leaves half
      written is not modelled, and no theorem reads the files after such a failure.\<close>
  "write_parquet lib args p df st =
     (let st1 = trace (ToParquet p) st
      in case to_parquet lib (columns df) (parquet_engine args) (parquet_compression args) of
           None \<Rightarrow> Inl (LibraryError (ToParquet p), st1)
         | Some b \<Rightarrow>
             if is_dir (fs st1) p then Inl (LibraryError (ToParquet p), st1)
             else Inr (st1\<lparr>fs := store p b (fs st1)\<rparr>))"

definition final_feedback ::
  "bool \<Rightarrow> 'a run_state_scheme \<Rightarrow> ('a run_state_scheme, 'a run_state_scheme) result" where
  \<comment> \<open>"Give final feedback", the same lines in both scripts\<close>
  "final_feedback ow st =
     (if num_files_converted st \<noteq> 0 then
        (if parquet_sizes st = 0 then Inl (ZeroDivisionError, st)
         else Inr (print (ConvertedSmaller (num_files_converted st)
                     (of_nat (original_sizes st) / of_nat (parquet_sizes st))) st))
      else if \<not> ow \<and> num_files_skipped st \<noteq> 0 then
        Inr (print (SkippedExisting (num_files_skipped st)) st)
      else Inr (print NoFilesConverted st))"

section \<open>csv\_to\_parquet.py\<close>

record csv_arguments = arguments +
  datetimes :: "string option"
  index :: "string option"
  high_precision :: bool
  verbose :: bool
  csv_pattern :: string
  directory_pattern :: string
  subdirectory_pattern :: string

record csv_state = run_state +
  empty_directories :: "string list"
  csv_filename :: "path option"
    \<comment> \<open>the module-level variable of the loop that counts the sizes; the variable of the
        list comprehension that reads the files is local to the comprehension\<close>

definition truthy :: "string option \<Rightarrow> string option" where
  \<comment> \<open>\<open>x if x else None\<close>: an option that was not given, or given empty, is false\<close>
  "truthy x = (case x of None \<Rightarrow> None | Some s \<Rightarrow> if s = [] then None else Some s)"

definition directories_matching ::
  "path \<Rightarrow> string \<Rightarrow> 'a run_state_scheme \<Rightarrow> ('a run_state_scheme, path list \<times> 'a run_state_scheme) result" where
  \<comment> \<open>\<open>[item for item in d.glob(pattern) if item.is_dir() and not item.name.startswith('.')]\<close>\<close>
  "directories_matching d pat st =
     (case glob_list d pat st of
        Inl e \<Rightarrow> Inl e
      | Inr (items, st1) \<Rightarrow>
          Inr (filter (\<lambda>item. is_dir (fs st1) item \<and> \<not> startswith (path_name item) ''.'') items,
               foldl (\<lambda>s item. trace (IsDir item) s) st1 items))"

definition no_files_message :: "path \<Rightarrow> string \<Rightarrow> string" where
  "no_files_message d pat = str_path d @ '': No files matching '' @ quote pat"

definition no_subdirectories_message :: "path \<Rightarrow> string \<Rightarrow> string" where
  "no_subdirectories_message d pat = str_path d @ '': No subdirectories matching '' @ quote pat"

definition failed_to_read :: "'b csv_arguments_scheme \<Rightarrow> path \<Rightarrow> string" where
  "failed_to_read args f =
     ''Failed to read '' @ quote (str_path f) @ ''.''
     @ (case truthy (index args) of
          Some i \<Rightarrow> '' Is index column '' @ quote i @ '' correct?'' | None \<Rightarrow> [])
     @ (case truthy (datetimes args) of
          Some d \<Rightarrow> '' Is datetime column '' @ quote d @ '' correct?'' | None \<Rightarrow> [])"

fun count_original_sizes :: "path list \<Rightarrow> 'a csv_state_scheme \<Rightarrow> 'a csv_state_scheme" where
  \<comment> \<open>\<open>for csv_filename in csv_filenames: original_sizes += csv_filename.stat().st_size\<close>\<close>
  "count_original_sizes [] st = st"
| "count_original_sizes (f # files) st =
     count_original_sizes files
       ((trace (Stat f) st)\<lparr>original_sizes := original_sizes st + st_size (fs st) f,
                            csv_filename := Some f\<rparr>)"

definition pandas_read_csv ::
  "'v library \<Rightarrow> filesystem \<Rightarrow> path \<Rightarrow> string option \<Rightarrow> string option \<Rightarrow> 'v dataframe option" where
  "pandas_read_csv lib files f parse_dates index_col =
     (case read_bytes files f of
        None \<Rightarrow> None
      | Some b \<Rightarrow> read_csv lib b parse_dates index_col)"

fun read_dataframes ::
  "'v library \<Rightarrow> 'b csv_arguments_scheme \<Rightarrow> path list \<Rightarrow> 'a run_state_scheme
     \<Rightarrow> 'v dataframe list option \<times> 'a run_state_scheme" where
  \<comment> \<open>the list comprehension inside \<open>try\<close>: the files are read in the order of the list, and
      the first one \<open>read_csv\<close> raises on ends it (None)\<close>
  "read_dataframes lib args [] st = (Some [], st)"
| "read_dataframes lib args (f # files) st =
     (let st1 = trace (ReadCsv f) st
      in case pandas_read_csv lib (fs st1) f (truthy (datetimes args)) (truthy (index args)) of
           None \<Rightarrow> (None, st1)
         | Some df \<Rightarrow>
             (case read_dataframes lib args files st1 of
                (None, st2) \<Rightarrow> (None, st2)
              | (Some dfs, st2) \<Rightarrow> (Some (df # dfs), st2)))"

definition normalize :: "'v library \<Rightarrow> 'b csv_arguments_scheme \<Rightarrow> 'v dataframe list \<Rightarrow> 'v dataframe" where
  \<comment> \<open>from the tables read to the table written: concatenated, its numeric columns made
      smaller unless \<open>--high-precision\<close>, the spaces of its column names replaced\<close>
  "normalize lib args dataframes =
     (let dataframe = pandas_concat lib dataframes;
          dataframe = (if \<not> high_precision args then downcast lib dataframe else dataframe)
      in rename_columns dataframe)"

definition load_and_write ::
  "'v library \<Rightarrow> 'b csv_arguments_scheme \<Rightarrow> path \<Rightarrow> path list \<Rightarrow> 'a csv_state_scheme
     \<Rightarrow> ('a csv_state_scheme, 'a csv_state_scheme) result" where
  \<comment> \<open>the body of the experiment loop once it has found CSV files\<close>
  "load_and_write lib args experiment_directory csv_filenames st =
     (let st1 = count_original_sizes csv_filenames st
      in case read_dataframes lib args csv_filenames st1 of
           (None, st2) \<Rightarrow>
             (case csv_filename st2 of
                None \<Rightarrow> Inl (NameError ''csv_filename'', st2)
              | Some f \<Rightarrow> Inl (Exception (failed_to_read args f), st2))
         | (Some dataframes, st2) \<Rightarrow>
             (let dataframe = normalize lib args dataframes;
                  parquet_filename = with_suffix experiment_directory ''.parquet''
              in case write_parquet lib args parquet_filename dataframe st2 of
                   Inl e \<Rightarrow> Inl e
                 | Inr st3 \<Rightarrow>
                     (let st4 = trace (Stat parquet_filename) st3
                      in Inr (st4\<lparr>parquet_sizes := parquet_sizes st4 + st_size (fs st4) parquet_filename,
                                   num_files_converted := num_files_converted st4 + 1\<rparr>))))"

definition convert_experiment ::
  "'v library \<Rightarrow> 'b csv_arguments_scheme \<Rightarrow> path \<Rightarrow> 'a csv_state_scheme
     \<Rightarrow> ('a csv_state_scheme, 'a csv_state_scheme) result" where
  \<comment> \<open>the body of \<open>for experiment_directory in experiment_directories_progress\<close>\<close>
  "convert_experiment lib args experiment_directory st =
     (let parquet_filename = with_suffix experiment_directory ''.parquet'';
          st1 = trace (Exists parquet_filename) st
      in if path_exists (fs st1) parquet_filename \<and> \<not> overwrite args
         then Inr (st1\<lparr>num_files_skipped := num_files_skipped st1 + 1\<rparr>)
         else
           (case glob_list experiment_directory (csv_pattern args) st1 of
              Inl e \<Rightarrow> Inl e
            | Inr (found, st2) \<Rightarrow>
                (let csv_filenames = sort found
                 in if csv_filenames = []
                    then Inr (st2\<lparr>empty_directories := empty_directories st2
                                @ [no_files_message experiment_directory (csv_pattern args)]\<rparr>)
                    else load_and_write lib args experiment_directory csv_filenames st2)))"

definition convert_campaign ::
  "'v library \<Rightarrow> 'b csv_arguments_scheme \<Rightarrow> path \<Rightarrow> 'a csv_state_scheme
     \<Rightarrow> ('a csv_state_scheme, 'a csv_state_scheme) result" where
  \<comment> \<open>the body of \<open>for campaign_directory in campaign_directories_progress\<close>\<close>
  "convert_campaign lib args campaign_directory st =
     (case directories_matching campaign_directory (subdirectory_pattern args) st of
        Inl e \<Rightarrow> Inl e
      | Inr (experiment_directories, st1) \<Rightarrow>
          (case for_each (convert_experiment lib args) experiment_directories st1 of
             Inl e \<Rightarrow> Inl e
           | Inr st2 \<Rightarrow>
               Inr (if experiment_directories = []
                    then st2\<lparr>empty_directories := empty_directories st2
                           @ [no_subdirectories_message campaign_directory (subdirectory_pattern args)]\<rparr>
                    else st2)))"

definition csv_banner :: "'b csv_arguments_scheme \<Rightarrow> string" where
  "csv_banner args =
     ''Converting campaigns in '' @ quote (str_path (start_directory args))
     @ '' matching '' @ quote (directory_pattern args) @ '' to Parquet''"

definition csv_initial :: "'b csv_arguments_scheme \<Rightarrow> filesystem \<Rightarrow> csv_state" where
  "csv_initial args files =
     \<lparr>fs = files, calls = [], stdout = [Line (csv_banner args)],
      original_sizes = 0, parquet_sizes = 0, num_files_converted = 0, num_files_skipped = 0,
      empty_directories = [], csv_filename = None\<rparr>"

definition csv_to_parquet ::
  "'v library \<Rightarrow> 'b csv_arguments_scheme \<Rightarrow> filesystem \<Rightarrow> (csv_state, csv_state) result" where
  \<comment> \<open>the script from its first \<open>print\<close> on. With no campaign directory, line 239 reads
      \<open>arguments.directory\<close>, which the parser never defines.\<close>
  "csv_to_parquet lib args files =
     (case directories_matching (start_directory args) (directory_pattern args) (csv_initial args files) of
        Inl e \<Rightarrow> Inl e
      | Inr (campaign_directories, st1) \<Rightarrow>
          (case for_each (convert_campaign lib args) campaign_directories st1 of
             Inl e \<Rightarrow> Inl e
           | Inr st2 \<Rightarrow>
               if campaign_directories = [] then Inl (AttributeError ''directory'', st2)
               else
                 (case final_feedback (overwrite args) st2 of
                    Inl e \<Rightarrow> Inl e
                  | Inr st3 \<Rightarrow>
                      Inr (if verbose args
                           then print (Line (join [CHR 0x0A] (empty_directories st3)))
                                  (print (Line []) st3)
                           else st3))))"

section \<open>npy\_to\_parquet.py\<close>

record npy_arguments = arguments +
  npy_pattern :: string
  format :: "path option"

definition NPY_FORMAT_DEFAULT :: string where
  "NPY_FORMAT_DEFAULT =
     join [CHR 0x0A]
       [''columns: '', ''  - Time'', ''  - Current'', ''  - Voltage'', ''  - Temperature'',
        ''date_column:'', ''  Time: s'', ''float32: False'']"

definition load_format ::
  "'v library \<Rightarrow> 'b npy_arguments_scheme \<Rightarrow> 'a run_state_scheme
     \<Rightarrow> ('a run_state_scheme, npy_format \<times> 'a run_state_scheme) result" where
  \<comment> \<open>\<open>safe_load(open(arguments.format))\<close>, or \<open>safe_load(NPY_FORMAT_DEFAULT)\<close>\<close>
  "load_format lib args st =
     (case format args of
        Some p \<Rightarrow>
          (let st1 = trace (Open p) st
           in case read_bytes (fs st1) p of
                None \<Rightarrow> Inl (LibraryError (Open p), st1)
              | Some b \<Rightarrow>
                  (case safe_load lib b of
                     None \<Rightarrow> Inl (LibraryError (Open p), st1)
                   | Some f \<Rightarrow> Inr (f, st1)))
      | None \<Rightarrow>
          (case safe_load lib NPY_FORMAT_DEFAULT of
             None \<Rightarrow> Inl (ValueError ''NPY_FORMAT_DEFAULT'', st)
           | Some f \<Rightarrow> Inr (f, st)))"

fun array_column :: "'v ndarray \<Rightarrow> nat \<Rightarrow> 'v column option" where
  \<comment> \<open>\<open>array[:, idx]\<close> as a column still to be named; None for IndexError\<close>
  "array_column (Matrix t r cols) idx =
     (if idx < length cols then Some (Column [] t (cols ! idx)) else None)"
| "array_column OtherArray idx = None"

fun array_rows :: "'v ndarray \<Rightarrow> nat" where
  "array_rows (Matrix t r cols) = r"
| "array_rows OtherArray = 0"

fun dict_set :: "'v column \<Rightarrow> 'v column list \<Rightarrow> 'v column list" where
  \<comment> \<open>\<open>d[name] = value\<close>: a name already there keeps its place and takes the new value\<close>
  "dict_set c [] = [c]"
| "dict_set c (d # ds) =
     (if column_name d = column_name c then c # ds else d # dict_set c ds)"

fun columns_dict :: "'v ndarray \<Rightarrow> nat \<Rightarrow> string list \<Rightarrow> 'v column list \<Rightarrow> 'v column list option" where
  \<comment> \<open>\<open>{name: array[:, idx] for idx, name in enumerate(npy_format['columns'])}\<close>\<close>
  "columns_dict a idx [] d = Some d"
| "columns_dict a idx (name # names) d =
     (case array_column a idx of
        None \<Rightarrow> None
      | Some c \<Rightarrow> columns_dict a (Suc idx) names (dict_set (Column name (column_dtype c) (cells c)) d))"

fun convert_dates :: "'v library \<Rightarrow> (string \<times> string) list \<Rightarrow> 'v dataframe \<Rightarrow> 'v dataframe option" where
  \<comment> \<open>\<open>for date_name, date_units in npy_format['date_column'].items()\<close>: None for the
      KeyError of a name that is no column, and when \<open>to_datetime\<close> raises\<close>
  "convert_dates lib [] df = Some df"
| "convert_dates lib ((date_name, date_units) # rest) df =
     (case find_column date_name df of
        None \<Rightarrow> None
      | Some c \<Rightarrow>
          (case to_datetime lib (column_dtype c) (cells c) date_units of
             None \<Rightarrow> None
           | Some vs \<Rightarrow>
               convert_dates lib rest
                 (DataFrame (nrows df) (dict_set (Column date_name Datetime64 vs) (columns df)))))"

definition map_table :: "'v library \<Rightarrow> npy_format \<Rightarrow> 'v ndarray \<Rightarrow> 'v dataframe option" where
  \<comment> \<open>the body of \<open>try\<close>; None when anything in it raises\<close>
  "map_table lib npy_format array =
     (case columns_dict array 0 (format_columns npy_format) [] of
        None \<Rightarrow> None
      | Some d \<Rightarrow>
          convert_dates lib (date_column npy_format)
            (DataFrame (if d = [] then 0 else array_rows array) d))"

definition format_file_of :: "path \<Rightarrow> path" where
  "format_file_of npy_filename = with_name npy_filename (path_name npy_filename @ ''_format.yml'')"

definition does_not_fit :: "path \<Rightarrow> string" where
  "does_not_fit npy_filename =
     quote (str_path npy_filename) @ '' does not fit the expected format. ''
     @ ''Creating a new format file '' @ quote (str_path (format_file_of npy_filename))
     @ ''. Edit it to reflect the file format, ''
     @ ''then re-run using '' @ quote ''-f FORMAT_FILE_NAME'' @ ''.''"

definition convert_file ::
  "'v library \<Rightarrow> 'b npy_arguments_scheme \<Rightarrow> npy_format \<Rightarrow> path \<Rightarrow> 'a run_state_scheme
     \<Rightarrow> ('a run_state_scheme, 'a run_state_scheme) result" where
  \<comment> \<open>the body of \<open>for npy_filename in npy_filenames_progress\<close>\<close>
  "convert_file lib args npy_format npy_filename st =
     (let parquet_filename = with_suffix npy_filename ''.parquet'';
          st1 = trace (Exists parquet_filename) st
      in if path_exists (fs st1) parquet_filename \<and> \<not> overwrite args
         then Inr (st1\<lparr>num_files_skipped := num_files_skipped st1 + 1\<rparr>)
         else
           (let st2 = (trace (Stat npy_filename) st1)
                        \<lparr>original_sizes := original_sizes st1 + st_size (fs st1) npy_filename\<rparr>;
                st3 = trace (NumpyLoad npy_filename) st2
            in case (case read_bytes (fs st3) npy_filename of
                       None \<Rightarrow> None | Some b \<Rightarrow> numpy_load lib b) of
                 None \<Rightarrow> Inl (LibraryError (NumpyLoad npy_filename), st3)
               | Some array \<Rightarrow>
                   (case map_table lib npy_format array of
                      None \<Rightarrow>
                        (let format_file = format_file_of npy_filename;
                             st4 = trace (WriteText format_file) st3
                         in if is_dir (fs st4) format_file
                            then Inl (LibraryError (WriteText format_file), st4)
                            else Inl (Exception (does_not_fit npy_filename),
                                      st4\<lparr>fs := store format_file NPY_FORMAT_DEFAULT (fs st4)\<rparr>))
                    | Some dataframe \<Rightarrow>
                        (case write_parquet lib args parquet_filename dataframe st3 of
                           Inl e \<Rightarrow> Inl e
                         | Inr st5 \<Rightarrow>
                             (let st6 = trace (Stat parquet_filename) st5
                              in Inr (st6\<lparr>parquet_sizes := parquet_sizes st6 + st_size (fs st6) parquet_filename,
                                           num_files_converted := num_files_converted st6 + 1\<rparr>))))))"

definition npy_banner :: "'b npy_arguments_scheme \<Rightarrow> string" where
  "npy_banner args =
     ''Converting files in '' @ quote (str_path (start_directory args))
     @ '' matching '' @ quote (npy_pattern args) @ '' to Parquet. ''"

definition npy_initial :: "filesystem \<Rightarrow> run_state" where
  "npy_initial files =
     \<lparr>fs = files, calls = [], stdout = [],
      original_sizes = 0, parquet_sizes = 0, num_files_converted = 0, num_files_skipped = 0\<rparr>"

definition npy_scan ::
  "'v library \<Rightarrow> 'b npy_arguments_scheme \<Rightarrow> npy_format \<Rightarrow> 'a run_state_scheme
     \<Rightarrow> ('a run_state_scheme, 'a run_state_scheme) result" where
  \<comment> \<open>the script from its \<open>print\<close> on, with the format it has loaded\<close>
  "npy_scan lib args npy_format st =
     (case glob_list (start_directory args) (npy_pattern args) (print (Line (npy_banner args)) st) of
        Inl e \<Rightarrow> Inl e
      | Inr (npy_filenames, st1) \<Rightarrow>
          (case for_each (convert_file lib args npy_format) npy_filenames st1 of
             Inl e \<Rightarrow> Inl e
           | Inr st2 \<Rightarrow> final_feedback (overwrite args) st2))"

definition npy_to_parquet ::
  "'v library \<Rightarrow> 'b npy_arguments_scheme \<Rightarrow> filesystem \<Rightarrow> (run_state, run_state) result" where
  "npy_to_parquet lib args files =
     (case load_format lib args (npy_initial files) of
        Inl e \<Rightarrow> Inl e
      | Inr (npy_format, st) \<Rightarrow> npy_scan lib args npy_format st)"

section \<open>Outcomes, and the sample runs the theorems are tried on\<close>

definition raised :: "('s, 'a) result \<Rightarrow> error option" where
  "raised r = (case r of Inl (e, st) \<Rightarrow> Some e | Inr x \<Rightarrow> None)"

definition state_of :: "('s, 's) result \<Rightarrow> 's" where
  \<comment> \<open>the world a step leaves, whether it raised or not\<close>
  "state_of r = (case r of Inl (e, st) \<Rightarrow> st | Inr st \<Rightarrow> st)"

definition default_format :: npy_format where
  \<comment> \<open>what the YAML of \<open>NPY_FORMAT_DEFAULT\<close> says\<close>
  "default_format =
     \<lparr>format_columns = [''Time'', ''Current'', ''Voltage'', ''Temperature''],
      date_column = [(''Time'', ''s'')], float32 = False\<rparr>"

definition sample_common_dtype :: "dtype option list \<Rightarrow> dtype" where
  "sample_common_dtype ts =
     (case remdups ts of
        [Some t] \<Rightarrow> t
      | _ \<Rightarrow> if list_all (\<lambda>t. case t of None \<Rightarrow> True | Some d \<Rightarrow> is_numeric d) ts
             then Float64 else Object)"

definition sample_table :: "string \<Rightarrow> int dataframe option" where
  \<comment> \<open>the CSV texts the sample parser knows, with the dtypes it infers\<close>
  "sample_table b =
     (if b = ''t,cell v,cycle;0,4,1;1,3,1;2,5,1'' then
        Some (DataFrame 3 [Column ''t'' Int64 [0, 1, 2], Column ''cell v'' Float64 [4, 3, 5],
                           Column ''cycle'' Int64 [1, 1, 1]])
      else if b = ''t,cell v,cycle;3,6,2;4,7,2'' then
        Some (DataFrame 2 [Column ''t'' Int64 [3, 4], Column ''cell v'' Float64 [6, 7],
                           Column ''cycle'' Int64 [2, 2]])
      else if b = ''id;18446744073709551615'' then
        Some (DataFrame 1 [Column ''id'' UInt64 [18446744073709551615]])
      else None)"

definition sample_read_csv :: "string \<Rightarrow> string option \<Rightarrow> string option \<Rightarrow> int dataframe option" where
  \<comment> \<open>a column named by \<open>parse_dates\<close> becomes a datetime column, the column named by
      \<open>index_col\<close> becomes the index and is no column any more; naming a column the
      file does not have raises\<close>
  "sample_read_csv b parse_dates index_col =
     (case sample_table b of
        None \<Rightarrow> None
      | Some df \<Rightarrow>
          if (case parse_dates of None \<Rightarrow> False
              | Some d \<Rightarrow> d \<notin> set (map column_name (columns df)))
             \<or> (case index_col of None \<Rightarrow> False
                 | Some i \<Rightarrow> i \<notin> set (map column_name (columns df)))
          then None
          else Some (DataFrame (nrows df)
                 (map (\<lambda>c. if Some (column_name c) = parse_dates
                           then Column (column_name c) Datetime64 (cells c) else c)
                    (filter (\<lambda>c. Some (column_name c) \<noteq> index_col) (columns df)))))"

definition sample_library :: "int library" where
  \<comment> \<open>a library that knows a few files: three CSV tables, two arrays (of four and of
      three columns), and the default format; it raises on everything else\<close>
  "sample_library =
     \<lparr>read_csv = sample_read_csv,
      nan = - 1,
      common_dtype = sample_common_dtype,
      convert = (\<lambda>from to v. v),
      to_parquet = (\<lambda>cols engine compression.
        if engine = ''fastparquet''
        then Some (''PAR1'' @ concat (map column_name cols) @ ''PAR1'') else None),
      numpy_load = (\<lambda>b.
        if b = ''NUMPY 2x4'' then Some (Matrix Float64 2 [[0, 1], [5, 6], [7, 8], [9, 10]])
        else if b = ''NUMPY 2x3'' then Some (Matrix Float64 2 [[0, 1], [5, 6], [7, 8]])
        else if b = ''NUMPY 5'' then Some OtherArray
        else None),
      to_datetime = (\<lambda>t vs unit. if unit \<in> set [''D'', ''s'', ''ms'', ''us'', ''ns''] then Some vs else None),
      safe_load = (\<lambda>b. if b = NPY_FORMAT_DEFAULT then Some default_format else None)\<rparr>"

definition sample_csv_arguments :: csv_arguments where
  \<comment> \<open>the defaults of the parser, on the directory \<open>data\<close>\<close>
  "sample_csv_arguments =
     \<lparr>start_directory = [''data''], overwrite = False,
      parquet_engine = ''fastparquet'', parquet_compression = ''gzip'',
      datetimes = None, index = Some ''t'', high_precision = False, verbose = False,
      csv_pattern = ''*.[Cc][Ss][Vv]'', directory_pattern = ''*'', subdirectory_pattern = ''*''\<rparr>"

definition sample_npy_arguments :: npy_arguments where
  "sample_npy_arguments =
     \<lparr>start_directory = [''data''], overwrite = False,
      parquet_engine = ''fastparquet'', parquet_compression = ''gzip'',
      npy_pattern = ''*.[Nn][Pp][Yy]'', format = None\<rparr>"

definition no_campaigns :: filesystem where
  \<comment> \<open>a start directory that holds one file and no directory\<close>
  "no_campaigns = [([''data''], Dir 4096), ([''data'', ''README.md''], File ''notes'')]"

definition one_experiment :: filesystem where
  \<comment> \<open>\<open>data/C1/E1/{a.csv,b.csv}\<close> of 3 and 2 rows, \<open>b.csv\<close> listed first, and an
      experiment and a campaign with nothing in them\<close>
  "one_experiment =
     [([''data''], Dir 4096),
      ([''data'', ''C1''], Dir 4096),
      ([''data'', ''C1'', ''E1''], Dir 4096),
      ([''data'', ''C1'', ''E1'', ''b.csv''], File ''t,cell v,cycle;3,6,2;4,7,2''),
      ([''data'', ''C1'', ''E1'', ''a.csv''], File ''t,cell v,cycle;0,4,1;1,3,1;2,5,1''),
      ([''data'', ''C1'', ''E2''], Dir 4096),
      ([''data'', ''C2''], Dir 4096)]"

definition broken_first_file :: filesystem where
  \<comment> \<open>\<open>data/C1/E1/{a.csv,b.csv}\<close>: \<open>a.csv\<close> is not a table, \<open>b.csv\<close> is\<close>
  "broken_first_file =
     [([''data''], Dir 4096),
      ([''data'', ''C1''], Dir 4096),
      ([''data'', ''C1'', ''E1''], Dir 4096),
      ([''data'', ''C1'', ''E1'', ''a.csv''], File ''<html>not a table</html>''),
      ([''data'', ''C1'', ''E1'', ''b.csv''], File ''t,cell v,cycle;3,6,2;4,7,2'')]"

definition hidden_array :: filesystem where
  "hidden_array =
     [([''data''], Dir 4096), ([''data'', ''.backup.npy''], File ''NUMPY 2x4'')]"

definition unreadable_array :: filesystem where
  \<comment> \<open>a file named as an array that \<open>numpy.load\<close> cannot read\<close>
  "unreadable_array =
     [([''data''], Dir 4096), ([''data'', ''run1.npy''], File ''truncated'')]"

definition three_columns :: filesystem where
  "three_columns =
     [([''data''], Dir 4096), ([''data'', ''run1.npy''], File ''NUMPY 2x3'')]"

definition already_converted :: filesystem where
  \<comment> \<open>an experiment with no CSV file in it, beside the Parquet file of an earlier run\<close>
  "already_converted =
     [([''data''], Dir 4096),
      ([''data'', ''C1''], Dir 4096),
      ([''data'', ''C1'', ''E1''], Dir 4096),
      ([''data'', ''C1'', ''E1.parquet''], File ''PAR1cell_vcyclePAR1'')]"

definition converted_array :: filesystem where
  "converted_array =
     [([''data''], Dir 4096),
      ([''data'', ''run1.npy''], File ''NUMPY 2x4''),
      ([''data'', ''run1.parquet''], File ''PAR1TimeCurrentVoltageTemperaturePAR1'')]"

definition four_columns :: filesystem where
  "four_columns =
     [([''data''], Dir 4096), ([''data'', ''run1.npy''], File ''NUMPY 2x4'')]"

definition no_arrays :: filesystem where
  "no_arrays = [([''data''], Dir 4096), ([''data'', ''notes.txt''], File ''nothing here'')]"

definition big_ids :: filesystem where
  \<comment> \<open>an experiment whose one CSV file has a column of integers above the signed range\<close>
  "big_ids =
     [([''data''], Dir 4096),
      ([''data'', ''C1''], Dir 4096),
      ([''data'', ''C1'', ''E1''], Dir 4096),
      ([''data'', ''C1'', ''E1'', ''ids.csv''], File ''id;18446744073709551615'')]"

definition mixed_entries :: filesystem where
  \<comment> \<open>a start directory holding a hidden directory, a file and one campaign\<close>
  "mixed_entries =
     [([''data''], Dir 4096),
      ([''data'', ''.git''], Dir 4096),
      ([''data'', ''notes.csv''], File ''remember''),
      ([''data'', ''C1''], Dir 4096)]"

lemmas path_defs =
  path_name_def str_path_def quote_def suffix_of_def with_name_def with_suffix_def
  path_exists_def is_dir_def st_size_def read_bytes_def scandir_def
  class_stuff_def fnmatch_def glob_def

lemmas csv_defs =
  trace_def print_def glob_list_def write_parquet_def final_feedback_def truthy_def
  directories_matching_def no_files_message_def no_subdirectories_message_def
  failed_to_read_def pandas_read_csv_def normalize_def load_and_write_def
  convert_experiment_def convert_campaign_def csv_banner_def csv_initial_def csv_to_parquet_def

lemmas npy_defs =
  trace_def print_def glob_list_def write_parquet_def final_feedback_def
  load_format_def map_table_def format_file_of_def does_not_fit_def convert_file_def
  npy_banner_def npy_initial_def npy_scan_def npy_to_parquet_def

lemmas table_defs =
  find_column_def concat_column_def pandas_concat_def astype_def downcast_def
  replace_spaces_def rename_columns_def

lemmas sample_files =
  no_campaigns_def one_experiment_def broken_first_file_def hidden_array_def
  unreadable_array_def three_columns_def already_converted_def converted_array_def
  four_columns_def no_arrays_def mixed_entries_def big_ids_def

lemmas sample_defs =
  default_format_def sample_common_dtype_def sample_table_def sample_read_csv_def
  sample_library_def
  sample_csv_arguments_def sample_npy_arguments_def NPY_FORMAT_DEFAULT_def

section \<open>Facts about the file system and the loops\<close>

lemma map_of_store: "map_of (store p b files) q = (if q = p then Some (File b) else map_of files q)"
  by (induction files) auto

lemma read_bytes_store: "read_bytes (store p b files) p = Some b"
  by (simp add: read_bytes_def map_of_store)

lemma st_size_store: "st_size (store p b files) p = length b"
  by (simp add: st_size_def map_of_store)

lemma count_original_sizes_eq:
  "count_original_sizes fl st =
     st\<lparr>calls := calls st @ map Stat fl,
        original_sizes := original_sizes st + sum_list (map (st_size (fs st)) fl),
        csv_filename := (if fl = [] then csv_filename st else Some (last fl))\<rparr>"
  by (induction fl arbitrary: st) (simp_all add: trace_def)

lemma read_dataframes_state:
  "read_dataframes lib args fl st = (r, st') \<Longrightarrow>
     \<exists>k \<le> length fl. st' = st\<lparr>calls := calls st @ map ReadCsv (take k fl)\<rparr>"
proof (induction fl arbitrary: st r st')
  case Nil
  then show ?case by simp
next
  case (Cons f fl)
  show ?case
  proof (cases "pandas_read_csv lib (fs st) f (truthy (datetimes args)) (truthy (index args))")
    case None
    with Cons.prems have "st' = st\<lparr>calls := calls st @ map ReadCsv (take 1 (f # fl))\<rparr>"
      by (simp add: trace_def)
    then show ?thesis by (intro exI[of _ 1]) simp
  next
    case (Some df)
    obtain r2 st2 where r2: "read_dataframes lib args fl (trace (ReadCsv f) st) = (r2, st2)"
      by (cases "read_dataframes lib args fl (trace (ReadCsv f) st)") auto
    from Cons.IH[OF r2] obtain k where k: "k \<le> length fl"
      "st2 = (trace (ReadCsv f) st)\<lparr>calls := calls (trace (ReadCsv f) st) @ map ReadCsv (take k fl)\<rparr>"
      by auto
    from Cons.prems Some r2 have "st' = st2"
      by (auto simp: trace_def Let_def split: option.splits)
    with k have "st' = st\<lparr>calls := calls st @ map ReadCsv (take (Suc k) (f # fl))\<rparr>"
      by (simp add: trace_def)
    with k(1) show ?thesis by (intro exI[of _ "Suc k"]) simp
  qed
qed

lemma read_dataframes_Some:
  "read_dataframes lib args fl st = (Some dfs, st') \<Longrightarrow>
     st' = st\<lparr>calls := calls st @ map ReadCsv fl\<rparr> \<and>
     map Some dfs = map (\<lambda>f. pandas_read_csv lib (fs st) f (truthy (datetimes args)) (truthy (index args))) fl"
proof (induction fl arbitrary: st dfs st')
  case Nil
  then show ?case by simp
next
  case (Cons f fl)
  from Cons.prems obtain df dfs2 st2 where
    df: "pandas_read_csv lib (fs st) f (truthy (datetimes args)) (truthy (index args)) = Some df"
    and r2: "read_dataframes lib args fl (trace (ReadCsv f) st) = (Some dfs2, st2)"
    and eq: "dfs = df # dfs2" "st' = st2"
    by (auto simp: trace_def Let_def split: option.splits prod.splits)
  from Cons.IH[OF r2] df eq show ?case
    by (simp add: trace_def)
qed

lemma is_dir_store: "is_dir (store p b files) q = (q \<noteq> p \<and> is_dir files q)"
  by (simp add: is_dir_def map_of_store)

lemma path_exists_store: "path_exists (store p b files) q = (q = p \<or> path_exists files q)"
  by (simp add: path_exists_def map_of_store)

lemma write_parquet_Inr:
  "write_parquet lib args p df st = Inr st' \<Longrightarrow>
     \<exists>b. to_parquet lib (columns df) (parquet_engine args) (parquet_compression args) = Some b
       \<and> \<not> is_dir (fs st) p
       \<and> st' = st\<lparr>fs := store p b (fs st), calls := calls st @ [ToParquet p]\<rparr>"
  by (auto simp: write_parquet_def trace_def Let_def split: option.splits if_splits)

lemma write_parquet_Inl:
  "write_parquet lib args p df st = Inl (e, st') \<Longrightarrow>
     e = LibraryError (ToParquet p) \<and> st' = st\<lparr>calls := calls st @ [ToParquet p]\<rparr>"
  by (auto simp: write_parquet_def trace_def Let_def split: option.splits if_splits)

lemma convert_file_skips:
  "path_exists (fs st) (with_suffix f ''.parquet'') \<Longrightarrow> \<not> overwrite args \<Longrightarrow>
     convert_file lib args npy_format f st =
       Inr (st\<lparr>calls := calls st @ [Exists (with_suffix f ''.parquet'')],
               num_files_skipped := num_files_skipped st + 1\<rparr>)"
  by (simp add: convert_file_def trace_def)

lemma convert_experiment_skips:
  "path_exists (fs st) (with_suffix e ''.parquet'') \<Longrightarrow> \<not> overwrite args \<Longrightarrow>
     convert_experiment lib args e st =
       Inr (st\<lparr>calls := calls st @ [Exists (with_suffix e ''.parquet'')],
               num_files_skipped := num_files_skipped st + 1\<rparr>)"
  by (simp add: convert_experiment_def trace_def)

lemma convert_file_Inr:
  assumes "\<not> (path_exists (fs st) (with_suffix f ''.parquet'') \<and> \<not> overwrite args)"
    and "convert_file lib args npy_format f st = Inr st'"
  shows "\<exists>b0 array df b.
      read_bytes (fs st) f = Some b0 \<and> numpy_load lib b0 = Some array
      \<and> map_table lib npy_format array = Some df
      \<and> to_parquet lib (columns df) (parquet_engine args) (parquet_compression args) = Some b
      \<and> \<not> is_dir (fs st) (with_suffix f ''.parquet'')
      \<and> st' = st\<lparr>fs := store (with_suffix f ''.parquet'') b (fs st),
                  calls := calls st @ [Exists (with_suffix f ''.parquet''), Stat f, NumpyLoad f,
                                       ToParquet (with_suffix f ''.parquet''),
                                       Stat (with_suffix f ''.parquet'')],
                  original_sizes := original_sizes st + st_size (fs st) f,
                  parquet_sizes := parquet_sizes st + length b,
                  num_files_converted := num_files_converted st + 1\<rparr>"
proof -
  let ?out = "with_suffix f ''.parquet''"
  let ?st1 = "trace (Exists ?out) st"
  let ?st3 = "trace (NumpyLoad f)
                ((trace (Stat f) ?st1)\<lparr>original_sizes := original_sizes ?st1 + st_size (fs ?st1) f\<rparr>)"
  have fs1: "fs ?st1 = fs st" by (simp add: trace_def)
  from assms(1) have ns: "\<not> (path_exists (fs ?st1) ?out \<and> \<not> overwrite args)"
    by (simp add: fs1)
  from assms(2) ns obtain b0 array df st5 where
    b0: "read_bytes (fs ?st3) f = Some b0" and arr: "numpy_load lib b0 = Some array"
    and df: "map_table lib npy_format array = Some df"
    and w: "write_parquet lib args ?out df ?st3 = Inr st5"
    and st': "st' = (trace (Stat ?out) st5)\<lparr>parquet_sizes := parquet_sizes (trace (Stat ?out) st5)
                        + st_size (fs (trace (Stat ?out) st5)) ?out,
                   num_files_converted := num_files_converted (trace (Stat ?out) st5) + 1\<rparr>"
    unfolding convert_file_def Let_def
    by (simp split: option.splits sum.splits if_splits)
  from write_parquet_Inr[OF w] obtain b where
    b: "to_parquet lib (columns df) (parquet_engine args) (parquet_compression args) = Some b"
    and nd: "\<not> is_dir (fs ?st3) ?out"
    and st5: "st5 = ?st3\<lparr>fs := store ?out b (fs ?st3), calls := calls ?st3 @ [ToParquet ?out]\<rparr>"
    by auto
  have fs3: "fs ?st3 = fs st" by (simp add: trace_def)
  from st' st5 have "st' = st\<lparr>fs := store ?out b (fs st),
                  calls := calls st @ [Exists ?out, Stat f, NumpyLoad f, ToParquet ?out, Stat ?out],
                  original_sizes := original_sizes st + st_size (fs st) f,
                  parquet_sizes := parquet_sizes st + length b,
                  num_files_converted := num_files_converted st + 1\<rparr>"
    by (simp add: trace_def st_size_store)
  with b0 arr df b nd fs3 show ?thesis by auto
qed


lemma convert_file_load_fails:
  assumes "\<not> (path_exists (fs st) (with_suffix f ''.parquet'') \<and> \<not> overwrite args)"
    and "(case read_bytes (fs st) f of None \<Rightarrow> None | Some b \<Rightarrow> numpy_load lib b) = None"
  shows "convert_file lib args npy_format f st =
     Inl (LibraryError (NumpyLoad f),
          st\<lparr>calls := calls st @ [Exists (with_suffix f ''.parquet''), Stat f, NumpyLoad f],
             original_sizes := original_sizes st + st_size (fs st) f\<rparr>)"
  using assms unfolding convert_file_def Let_def
  by (simp add: trace_def)

lemma convert_file_mismatch:
  assumes "\<not> (path_exists (fs st) (with_suffix f ''.parquet'') \<and> \<not> overwrite args)"
    and "read_bytes (fs st) f = Some b0" and "numpy_load lib b0 = Some array"
    and "map_table lib npy_format array = None"
  shows "convert_file lib args npy_format f st =
     (if is_dir (fs st) (format_file_of f)
      then Inl (LibraryError (WriteText (format_file_of f)),
                st\<lparr>calls := calls st @ [Exists (with_suffix f ''.parquet''), Stat f, NumpyLoad f,
                                        WriteText (format_file_of f)],
                   original_sizes := original_sizes st + st_size (fs st) f\<rparr>)
      else Inl (Exception (does_not_fit f),
                st\<lparr>fs := store (format_file_of f) NPY_FORMAT_DEFAULT (fs st),
                   calls := calls st @ [Exists (with_suffix f ''.parquet''), Stat f, NumpyLoad f,
                                        WriteText (format_file_of f)],
                   original_sizes := original_sizes st + st_size (fs st) f\<rparr>))"
  using assms unfolding convert_file_def Let_def
  by (simp add: trace_def)

lemma convert_file_proceeds:
  assumes "\<not> (path_exists (fs st) (with_suffix f ''.parquet'') \<and> \<not> overwrite args)"
  shows "num_files_skipped (state_of (convert_file lib args npy_format f st)) = num_files_skipped st
     \<and> (\<exists>rest. calls (state_of (convert_file lib args npy_format f st)) =
           calls st @ [Exists (with_suffix f ''.parquet''), Stat f, NumpyLoad f] @ rest)"
proof (cases "convert_file lib args npy_format f st")
  case (Inr st')
  from convert_file_Inr[OF assms Inr] show ?thesis
    by (auto simp: Inr state_of_def)
next
  case (Inl p)
  show ?thesis
  proof (cases "case read_bytes (fs st) f of None \<Rightarrow> None | Some b \<Rightarrow> numpy_load lib b")
    case None
    from convert_file_load_fails[OF assms None] show ?thesis
      by (simp add: state_of_def)
  next
    case (Some array)
    then obtain b0 where b0: "read_bytes (fs st) f = Some b0" "numpy_load lib b0 = Some array"
      by (auto split: option.splits)
    show ?thesis
    proof (cases "map_table lib npy_format array")
      case None
      from convert_file_mismatch[OF assms b0 None] show ?thesis
        by (simp add: state_of_def)
    next
      case (Some df)
      let ?out = "with_suffix f ''.parquet''"
      let ?st3 = "trace (NumpyLoad f)
                ((trace (Stat f) (trace (Exists ?out) st))\<lparr>original_sizes :=
                    original_sizes (trace (Exists ?out) st) + st_size (fs (trace (Exists ?out) st)) f\<rparr>)"
      from assms have ns: "\<not> (path_exists (fs (trace (Exists ?out) st)) ?out \<and> \<not> overwrite args)"
        by (simp add: trace_def)
      have b3: "read_bytes (fs ?st3) f = Some b0" using b0 by (simp add: trace_def)
      from Inl ns b3 b0 Some obtain e st5 where w: "write_parquet lib args ?out df ?st3 = Inl (e, st5)"
        and p: "p = (e, st5)"
        unfolding convert_file_def Let_def
        by (simp split: sum.splits) (metis surj_pair)
      from write_parquet_Inl[OF w] p Inl show ?thesis
        by (simp add: state_of_def trace_def)
    qed
  qed
qed


lemma load_and_write_raises:
  assumes "read_dataframes lib args fl (count_original_sizes fl st) = (None, st2)" and "fl \<noteq> []"
  shows "load_and_write lib args e fl st = Inl (Exception (failed_to_read args (last fl)), st2)"
proof -
  from read_dataframes_state[OF assms(1)] obtain k where
    "st2 = (count_original_sizes fl st)\<lparr>calls := calls (count_original_sizes fl st) @ map ReadCsv (take k fl)\<rparr>"
    by blast
  then have "csv_filename st2 = Some (last fl)"
    using assms(2) by (simp add: count_original_sizes_eq)
  then show ?thesis
    using assms(1) by (simp add: load_and_write_def)
qed

lemma load_and_write_Inr:
  assumes "load_and_write lib args e fl st = Inr st'"
  shows "\<exists>dfs b.
      map Some dfs = map (\<lambda>f. pandas_read_csv lib (fs st) f (truthy (datetimes args)) (truthy (index args))) fl
      \<and> to_parquet lib (columns (normalize lib args dfs)) (parquet_engine args) (parquet_compression args) = Some b
      \<and> \<not> is_dir (fs st) (with_suffix e ''.parquet'')
      \<and> st' = st\<lparr>fs := store (with_suffix e ''.parquet'') b (fs st),
                  calls := calls st @ map Stat fl @ map ReadCsv fl
                           @ [ToParquet (with_suffix e ''.parquet''), Stat (with_suffix e ''.parquet'')],
                  original_sizes := original_sizes st + sum_list (map (st_size (fs st)) fl),
                  parquet_sizes := parquet_sizes st + length b,
                  num_files_converted := num_files_converted st + 1,
                  csv_filename := (if fl = [] then csv_filename st else Some (last fl))\<rparr>"
proof -
  let ?out = "with_suffix e ''.parquet''"
  let ?st1 = "count_original_sizes fl st"
  obtain r st2 where r: "read_dataframes lib args fl ?st1 = (r, st2)"
    by (cases "read_dataframes lib args fl ?st1") auto
  from assms r obtain dfs where dfs: "r = Some dfs"
    by (cases r) (auto simp: load_and_write_def split: option.splits)
  from read_dataframes_Some[OF r[unfolded dfs]]
  have st2: "st2 = ?st1\<lparr>calls := calls ?st1 @ map ReadCsv fl\<rparr>"
    and reads: "map Some dfs = map (\<lambda>f. pandas_read_csv lib (fs ?st1) f (truthy (datetimes args)) (truthy (index args))) fl"
    by auto
  have fs1: "fs ?st1 = fs st" by (simp add: count_original_sizes_eq)
  from assms r dfs obtain st3 where
    w: "write_parquet lib args ?out (normalize lib args dfs) st2 = Inr st3"
    and st': "st' = (trace (Stat ?out) st3)\<lparr>parquet_sizes := parquet_sizes (trace (Stat ?out) st3)
                        + st_size (fs (trace (Stat ?out) st3)) ?out,
                   num_files_converted := num_files_converted (trace (Stat ?out) st3) + 1\<rparr>"
    by (auto simp: load_and_write_def Let_def split: sum.splits)
  from write_parquet_Inr[OF w] obtain b where
    b: "to_parquet lib (columns (normalize lib args dfs)) (parquet_engine args) (parquet_compression args) = Some b"
    and nd: "\<not> is_dir (fs st2) ?out"
    and st3: "st3 = st2\<lparr>fs := store ?out b (fs st2), calls := calls st2 @ [ToParquet ?out]\<rparr>"
    by auto
  have fs2: "fs st2 = fs st" by (simp add: st2 fs1)
  from st' st3 st2 have "st' = st\<lparr>fs := store ?out b (fs st),
                  calls := calls st @ map Stat fl @ map ReadCsv fl @ [ToParquet ?out, Stat ?out],
                  original_sizes := original_sizes st + sum_list (map (st_size (fs st)) fl),
                  parquet_sizes := parquet_sizes st + length b,
                  num_files_converted := num_files_converted st + 1,
                  csv_filename := (if fl = [] then csv_filename st else Some (last fl))\<rparr>"
    by (simp add: trace_def st_size_store count_original_sizes_eq)
  with reads b nd fs1 fs2 show ?thesis by auto
qed

lemma load_and_write_state:
  "num_files_skipped (state_of (load_and_write lib args e fl st)) = num_files_skipped st
   \<and> (\<exists>rest. calls (state_of (load_and_write lib args e fl st)) = calls st @ rest)"
proof (cases "load_and_write lib args e fl st")
  case (Inr st')
  from load_and_write_Inr[OF Inr] show ?thesis by (auto simp: Inr state_of_def)
next
  case (Inl p)
  let ?out = "with_suffix e ''.parquet''"
  let ?st1 = "count_original_sizes fl st"
  obtain r st2 where r: "read_dataframes lib args fl ?st1 = (r, st2)"
    by (cases "read_dataframes lib args fl ?st1") auto
  from read_dataframes_state[OF r] obtain k where
    st2: "st2 = ?st1\<lparr>calls := calls ?st1 @ map ReadCsv (take k fl)\<rparr>" by blast
  show ?thesis
  proof (cases r)
    case None
    with Inl r have "snd p = st2"
      by (auto simp: load_and_write_def split: option.splits)
    then show ?thesis
      by (cases p) (simp add: Inl state_of_def st2 count_original_sizes_eq)
  next
    case (Some dfs)
    with Inl r obtain e' st3 where
      w: "write_parquet lib args ?out (normalize lib args dfs) st2 = Inl (e', st3)" and p: "p = (e', st3)"
      by (cases p) (auto simp: load_and_write_def Let_def split: sum.splits)
    from write_parquet_Inl[OF w] show ?thesis
      by (simp add: Inl p state_of_def st2 count_original_sizes_eq)
  qed
qed

lemma convert_experiment_empty:
  assumes "\<not> (path_exists (fs st) (with_suffix e ''.parquet'') \<and> \<not> overwrite args)"
    and "glob (fs st) e (csv_pattern args) = Inr []"
  shows "convert_experiment lib args e st =
     Inr (st\<lparr>calls := calls st @ [Exists (with_suffix e ''.parquet''), Glob e (csv_pattern args)],
             empty_directories := empty_directories st @ [no_files_message e (csv_pattern args)]\<rparr>)"
  using assms unfolding convert_experiment_def Let_def glob_list_def
  by (auto simp: trace_def)

lemma convert_experiment_found:
  assumes "\<not> (path_exists (fs st) (with_suffix e ''.parquet'') \<and> \<not> overwrite args)"
    and "glob (fs st) e (csv_pattern args) = Inr found" and "found \<noteq> []"
  shows "convert_experiment lib args e st =
     load_and_write lib args e (sort found)
       (st\<lparr>calls := calls st @ [Exists (with_suffix e ''.parquet''), Glob e (csv_pattern args)]\<rparr>)"
proof -
  from assms(3) have "sort found \<noteq> []"
    by (metis length_0_conv length_sort)
  with assms(1,2) show ?thesis
    unfolding convert_experiment_def Let_def glob_list_def
    by (auto simp: trace_def)
qed

lemma convert_experiment_glob_raises:
  assumes "\<not> (path_exists (fs st) (with_suffix e ''.parquet'') \<and> \<not> overwrite args)"
    and "glob (fs st) e (csv_pattern args) = Inl x"
  shows "convert_experiment lib args e st =
     Inl (x, st\<lparr>calls := calls st @ [Exists (with_suffix e ''.parquet''), Glob e (csv_pattern args)]\<rparr>)"
  using assms unfolding convert_experiment_def Let_def glob_list_def
  by (auto simp: trace_def)

lemma convert_experiment_proceeds:
  assumes "\<not> (path_exists (fs st) (with_suffix e ''.parquet'') \<and> \<not> overwrite args)"
  shows "num_files_skipped (state_of (convert_experiment lib args e st)) = num_files_skipped st
     \<and> (\<exists>rest. calls (state_of (convert_experiment lib args e st)) =
           calls st @ [Exists (with_suffix e ''.parquet''), Glob e (csv_pattern args)] @ rest)"
proof (cases "glob (fs st) e (csv_pattern args)")
  case (Inl x)
  from convert_experiment_glob_raises[OF assms Inl, where lib=lib] show ?thesis
    by (simp add: state_of_def)
next
  case (Inr found)
  show ?thesis
  proof (cases "found = []")
    case True
    with convert_experiment_empty[OF assms, where lib=lib] Inr show ?thesis
      by (simp add: state_of_def)
  next
    case False
    let ?st2 = "st\<lparr>calls := calls st @ [Exists (with_suffix e ''.parquet''), Glob e (csv_pattern args)]\<rparr>"
    from load_and_write_state[of lib args e "sort found" ?st2]
      convert_experiment_found[OF assms Inr False, where lib=lib]
    show ?thesis by auto
  qed
qed

lemma trace_all:
  "foldl (\<lambda>s item. s\<lparr>calls := calls s @ [c item]\<rparr>) st items = st\<lparr>calls := calls st @ map c items\<rparr>"
  by (induction items arbitrary: st) simp_all

lemma directories_matching_eq:
  "glob (fs st) d pat = Inr items \<Longrightarrow>
     directories_matching d pat st =
       Inr (filter (\<lambda>item. is_dir (fs st) item \<and> \<not> startswith (path_name item) ''.'') items,
            st\<lparr>calls := calls st @ Glob d pat # map IsDir items\<rparr>)"
  by (simp add: directories_matching_def glob_list_def Let_def trace_def trace_all)

lemma convert_campaign_empty:
  assumes "glob (fs st) c (subdirectory_pattern args) = Inr items"
    and "filter (\<lambda>item. is_dir (fs st) item \<and> \<not> startswith (path_name item) ''.'') items = []"
  shows "convert_campaign lib args c st =
     Inr (st\<lparr>calls := calls st @ Glob c (subdirectory_pattern args) # map IsDir items,
             empty_directories := empty_directories st
               @ [no_subdirectories_message c (subdirectory_pattern args)]\<rparr>)"
  using assms by (simp add: convert_campaign_def directories_matching_eq)

lemma npy_empty_run:
  assumes "load_format lib args (npy_initial files) = Inr (npy_format, st0)"
    and "glob files (start_directory args) (npy_pattern args) = Inr []"
  shows "npy_to_parquet lib args files =
     Inr \<lparr>fs = files, calls = calls st0 @ [Glob (start_directory args) (npy_pattern args)],
          stdout = [Line (npy_banner args), NoFilesConverted],
          original_sizes = 0, parquet_sizes = 0, num_files_converted = 0, num_files_skipped = 0\<rparr>"
proof -
  from assms(1) have "st0 = npy_initial files \<or> (\<exists>p. st0 = trace (Open p) (npy_initial files))"
    by (auto simp: load_format_def Let_def split: option.splits)
  with assms show ?thesis
    by (auto simp: npy_to_parquet_def npy_scan_def glob_list_def npy_initial_def
        final_feedback_def trace_def print_def)
qed

lemma not_raised: "raised r = None \<Longrightarrow> r = Inr (state_of r)"
  by (cases r) (auto simp: raised_def state_of_def)

lemma glob_raises:
  "glob files d [] = Inl (ValueError ''Unacceptable pattern'')"
  "glob files d ''.'' = Inl (IndexError ''tuple index out of range'')"
  by (simp_all add: glob_def)

lemma glob_returns_a_listing:
  assumes "glob files d pat = Inr found"
  shows "pat \<noteq> [] \<and> pat \<noteq> ''.'' \<and> pat \<noteq> ''..'' \<and> CHR ''/'' \<notin> set pat \<and> \<not> has_double_star pat
     \<and> found = map (\<lambda>n. d @ [n]) (filter (\<lambda>n. fnmatch n pat) (scandir files d))"
  using assms by (auto simp: glob_def split: if_splits)

lemma rejected_pattern_aborts_the_step:
  assumes "\<not> (path_exists (fs st) (with_suffix e ''.parquet'') \<and> \<not> overwrite args)"
    and "csv_pattern args = ''.''"
  shows "raised (convert_experiment lib args e st) = Some (IndexError ''tuple index out of range'')"
  using convert_experiment_glob_raises[OF assms(1), of "IndexError ''tuple index out of range''" lib]
    glob_raises(2)[of "fs st" e] assms(2)
  by (simp add: raised_def)

lemma glob_E2: "glob one_experiment [''data'', ''C1'', ''E2''] ''*.[Cc][Ss][Vv]'' = Inr []"
  by (simp add: path_defs sample_files)

lemma glob_C2: "glob one_experiment [''data'', ''C2''] ''*'' = Inr []"
  by (simp add: path_defs sample_files)

lemma glob_no_arrays: "glob no_arrays [''data''] ''*.[Nn][Pp][Yy]'' = Inr []"
  by (simp add: path_defs sample_files)

lemma glob_converted_E1: "glob already_converted [''data'', ''C1'', ''E1''] ''*.[Cc][Ss][Vv]'' = Inr []"
  by (simp add: path_defs sample_files)

lemma glob_E1:
  "glob one_experiment [''data'', ''C1'', ''E1''] ''*.[Cc][Ss][Vv]''
     = Inr [[''data'', ''C1'', ''E1'', ''b.csv''], [''data'', ''C1'', ''E1'', ''a.csv'']]"
  by (simp add: path_defs sample_files)

lemma E1_converts:
  "raised (convert_experiment sample_library sample_csv_arguments [''data'', ''C1'', ''E1'']
     (csv_initial sample_csv_arguments one_experiment)) = None"
  by (simp add: raised_def Let_def csv_defs path_defs table_defs sample_defs sample_files)

lemma run1_converts:
  "raised (convert_file sample_library sample_npy_arguments default_format [''data'', ''run1.npy'']
     (npy_initial four_columns)) = None"
  by (simp add: raised_def Let_def npy_defs path_defs table_defs sample_defs sample_files)

lemma columns_dict_too_few:
  "length cols < idx + length names \<Longrightarrow> idx \<le> length cols \<Longrightarrow>
     columns_dict (Matrix t r cols) idx names d = None"
  by (induction names arbitrary: idx d) auto

lemma columns_dict_other:
  "names \<noteq> [] \<Longrightarrow> columns_dict OtherArray idx names d = None"
  by (cases names) auto

lemma fs_trace: "fs (trace c st) = fs st"
  by (simp add: trace_def)

lemma fs_print: "fs (print m st) = fs st"
  by (simp add: print_def)

lemma for_each_append:
  "for_each body (xs @ ys) st =
     (case for_each body xs st of Inl e \<Rightarrow> Inl e | Inr st' \<Rightarrow> for_each body ys st')"
  by (induction xs arbitrary: st) (auto split: sum.splits)

lemma npy_scan_aborts:
  assumes "glob (fs st) (start_directory args) (npy_pattern args) = Inr (xs @ f # ys)"
    and "for_each (convert_file lib args npy_format) xs
           (trace (Glob (start_directory args) (npy_pattern args))
              (print (Line (npy_banner args)) st)) = Inr st2"
    and "convert_file lib args npy_format f st2 = Inl x"
  shows "npy_scan lib args npy_format st = Inl x"
  using assms
  by (simp add: npy_scan_def glob_list_def Let_def fs_trace fs_print for_each_append)

lemma convert_file_calls:
  assumes "convert_file lib args npy_format f st = Inr st'"
  shows "\<exists>rest. calls st' = calls st @ Exists (with_suffix f ''.parquet'') # rest"
proof (cases "path_exists (fs st) (with_suffix f ''.parquet'') \<and> \<not> overwrite args")
  case True
  with assms convert_file_skips[of st f args lib npy_format] show ?thesis by auto
next
  case False
  from convert_file_Inr[OF False assms] show ?thesis by auto
qed

lemma for_each_convert_file_calls:
  "for_each (convert_file lib args npy_format) xs st = Inr st' \<Longrightarrow>
     (\<exists>rest. calls st' = calls st @ rest)
     \<and> (\<forall>f\<in>set xs. Exists (with_suffix f ''.parquet'') \<in> set (calls st'))"
proof (induction xs arbitrary: st)
  case Nil
  then show ?case by simp
next
  case (Cons x xs)
  from Cons.prems obtain st1 where s1: "convert_file lib args npy_format x st = Inr st1"
    and r: "for_each (convert_file lib args npy_format) xs st1 = Inr st'"
    by (auto split: sum.splits)
  from convert_file_calls[OF s1] obtain r1 where
    c1: "calls st1 = calls st @ Exists (with_suffix x ''.parquet'') # r1" by blast
  from Cons.IH[OF r] obtain r2 where c2: "calls st' = calls st1 @ r2"
    and all: "\<forall>f\<in>set xs. Exists (with_suffix f ''.parquet'') \<in> set (calls st')" by blast
  from c1 c2 all show ?case by auto
qed

lemma final_feedback_calls:
  "final_feedback ow st = Inr st' \<Longrightarrow> calls st' = calls st"
  by (auto simp: final_feedback_def print_def split: if_splits)

lemma npy_scan_checks_every_match:
  assumes "glob (fs st) (start_directory args) (npy_pattern args) = Inr found"
    and "npy_scan lib args npy_format st = Inr st'"
  shows "\<forall>f\<in>set found. Exists (with_suffix f ''.parquet'') \<in> set (calls st')"
proof -
  let ?st1 = "trace (Glob (start_directory args) (npy_pattern args)) (print (Line (npy_banner args)) st)"
  from assms obtain st2 where l: "for_each (convert_file lib args npy_format) found ?st1 = Inr st2"
    and f: "final_feedback (overwrite args) st2 = Inr st'"
    by (auto simp: npy_scan_def glob_list_def Let_def fs_trace fs_print split: sum.splits)
  from for_each_convert_file_calls[OF l] final_feedback_calls[OF f] show ?thesis by simp
qed

lemma convert_experiment_reads_every_match:
  assumes "\<not> (path_exists (fs st) (with_suffix e ''.parquet'') \<and> \<not> overwrite args)"
    and "glob (fs st) e (csv_pattern args) = Inr found"
    and "convert_experiment lib args e st = Inr st'"
  shows "\<forall>f\<in>set found. ReadCsv f \<in> set (calls st')"
proof (cases "found = []")
  case True
  then show ?thesis by simp
next
  case False
  from convert_experiment_found[OF assms(1,2) False, where lib=lib] assms(3)
  have "load_and_write lib args e (sort found)
       (st\<lparr>calls := calls st @ [Exists (with_suffix e ''.parquet''), Glob e (csv_pattern args)]\<rparr>) = Inr st'"
    by simp
  from load_and_write_Inr[OF this] show ?thesis by auto
qed

lemma glob_returns_every_match:
  assumes "is_dir files d" and "(d @ [n], x) \<in> set files" and "fnmatch n pat"
    and "glob files d pat = Inr found"
  shows "d @ [n] \<in> set found"
proof -
  from assms(2) have "d @ [n] \<in> set (filter (\<lambda>p. p \<noteq> [] \<and> butlast p = d) (map fst files))"
    by force
  then have "last (d @ [n]) \<in> set (map last (filter (\<lambda>p. p \<noteq> [] \<and> butlast p = d) (map fst files)))"
    by (simp only: set_map) (rule imageI)
  with assms(1) have "n \<in> set (scandir files d)"
    by (simp add: scandir_def)
  with assms(3,4) show ?thesis
    by (auto simp: glob_def split: if_splits)
qed

lemma directories_matching_visible:
  assumes "directories_matching d pat st = Inr (dirs, st1)"
  shows "\<forall>p\<in>set dirs. is_dir (fs st) p \<and> \<not> startswith (path_name p) ''.''"
  using assms
  by (auto simp: directories_matching_def glob_list_def Let_def fs_trace split: sum.splits)

lemma hidden_array_scans:
  "raised (npy_scan sample_library sample_npy_arguments default_format (npy_initial hidden_array)) = None"
  by (simp add: raised_def Let_def npy_defs path_defs table_defs sample_defs sample_files)

lemma mixed_entries_campaigns:
  "directories_matching [''data''] ''*'' (csv_initial sample_csv_arguments mixed_entries) =
     Inr ([[''data'', ''C1'']],
          (csv_initial sample_csv_arguments mixed_entries)
            \<lparr>calls := [Glob [''data''] ''*'', IsDir [''data'', ''.git''],
                       IsDir [''data'', ''notes.csv''], IsDir [''data'', ''C1'']]\<rparr>)"
  by (simp add: Let_def csv_defs path_defs sample_files)

lemma glob_hidden_array:
  "glob hidden_array [''data''] ''*.[Nn][Pp][Yy]'' = Inr [[''data'', ''.backup.npy'']]"
  by (simp add: path_defs sample_files)

lemma concat_block:
  "\<forall>x\<in>set xs. length (f x) = g x \<Longrightarrow> i < length xs \<Longrightarrow>
     take (g (xs ! i)) (drop (sum_list (map g (take i xs))) (concat (map f xs))) = f (xs ! i)"
proof (induction xs arbitrary: i)
  case Nil
  then show ?case by simp
next
  case (Cons x xs)
  show ?case
  proof (cases i)
    case 0
    with Cons.prems show ?thesis by simp
  next
    case (Suc j)
    with Cons.prems Cons.IH[of j] show ?thesis by simp
  qed
qed

lemma find_column_in: "find_column n df = Some c \<Longrightarrow> c \<in> set (columns df) \<and> column_name c = n"
  by (auto simp: find_column_def find_Some_iff)

lemma length_concat_column:
  assumes "\<forall>df\<in>set dfs. \<forall>c\<in>set (columns df). length (cells c) = nrows df"
  shows "length (cells (concat_column lib dfs n)) = sum_list (map nrows dfs)"
proof -
  have "\<And>df. df \<in> set dfs \<Longrightarrow>
      length (case find_column n df of None \<Rightarrow> replicate (nrows df) (nan lib)
              | Some c \<Rightarrow> map (convert lib (column_dtype c) t) (cells c)) = nrows df" for t
    using assms by (auto split: option.splits dest: find_column_in)
  then show ?thesis
    by (simp add: concat_column_def Let_def length_concat comp_def cong: map_cong)
qed

lemma nrows_normalize: "nrows (normalize lib args dfs) = sum_list (map nrows dfs)"
  by (simp add: normalize_def Let_def downcast_def rename_columns_def pandas_concat_def)

lemma cells_normalize_lengths:
  assumes "\<forall>df\<in>set dfs. \<forall>c\<in>set (columns df). length (cells c) = nrows df"
  shows "\<forall>c\<in>set (columns (normalize lib args dfs)). length (cells c) = sum_list (map nrows dfs)"
  using length_concat_column[OF assms, of lib]
  by (auto simp: normalize_def Let_def downcast_def rename_columns_def pandas_concat_def astype_def)

lemma concat_column_block:
  assumes "\<forall>df\<in>set dfs. \<forall>c\<in>set (columns df). length (cells c) = nrows df"
    and "i < length dfs" and "find_column n (dfs ! i) = Some c"
  shows "take (nrows (dfs ! i)) (drop (sum_list (map nrows (take i dfs))) (cells (concat_column lib dfs n)))
     = map (convert lib (column_dtype c) (column_dtype (concat_column lib dfs n))) (cells c)"
proof -
  let ?t = "column_dtype (concat_column lib dfs n)"
  let ?piece = "\<lambda>df. case find_column n df of None \<Rightarrow> replicate (nrows df) (nan lib)
              | Some c \<Rightarrow> map (convert lib (column_dtype c) ?t) (cells c)"
  have len: "\<forall>df\<in>set dfs. length (?piece df) = nrows df"
    using assms(1) by (auto split: option.splits dest: find_column_in)
  have t: "?t = common_dtype lib (map (\<lambda>df. map_option column_dtype (find_column n df)) dfs)"
    by (simp add: concat_column_def Let_def)
  have cells: "cells (concat_column lib dfs n) = concat (map ?piece dfs)"
    unfolding t by (simp add: concat_column_def Let_def)
  from concat_block[OF len assms(2)] assms(3) show ?thesis
    by (simp add: cells)
qed

lemma for_each_preserves:
  assumes "\<And>x s s'. P s \<Longrightarrow> body x s = Inr s' \<Longrightarrow> P s'"
    and "P st" and "for_each body xs st = Inr st'"
  shows "P st'"
  using assms(2,3)
proof (induction xs arbitrary: st)
  case Nil
  then show ?case by simp
next
  case (Cons x xs)
  from Cons.prems(2) obtain s1 where s1: "body x st = Inr s1" and r: "for_each body xs s1 = Inr st'"
    by (auto split: sum.splits)
  from assms(1)[OF Cons.prems(1) s1] have "P s1" .
  from Cons.IH[OF this r] show ?case .
qed

lemma convert_experiment_keeps:
  assumes enc: "\<forall>cols e c b. to_parquet lib cols e c = Some b \<longrightarrow> b \<noteq> []"
    and run: "convert_experiment lib args e st = Inr st'"
    and inv: "stdout st = out \<and> (num_files_converted st = 0 \<or> parquet_sizes st \<noteq> 0)"
  shows "stdout st' = out \<and> (num_files_converted st' = 0 \<or> parquet_sizes st' \<noteq> 0)"
proof (cases "path_exists (fs st) (with_suffix e ''.parquet'') \<and> \<not> overwrite args")
  case True
  with run inv convert_experiment_skips[of st e args lib] show ?thesis by auto
next
  case False
  show ?thesis
  proof (cases "glob (fs st) e (csv_pattern args)")
    case (Inl x)
    from convert_experiment_glob_raises[OF False Inl, where lib=lib] run show ?thesis by simp
  next
    case (Inr found)
    show ?thesis
    proof (cases "found = []")
      case True
      with convert_experiment_empty[OF False, where lib=lib] Inr run inv show ?thesis by auto
    next
      case nonempty: False
      let ?st2 = "st\<lparr>calls := calls st @ [Exists (with_suffix e ''.parquet''), Glob e (csv_pattern args)]\<rparr>"
      from convert_experiment_found[OF False Inr nonempty, where lib=lib] run
      have "load_and_write lib args e (sort found) ?st2 = Inr st'" by simp
      from load_and_write_Inr[OF this] enc
      have "parquet_sizes st' \<noteq> 0 \<and> stdout st' = stdout st" by auto
      with inv show ?thesis by simp
    qed
  qed
qed

lemma convert_file_keeps:
  assumes enc: "\<forall>cols e c b. to_parquet lib cols e c = Some b \<longrightarrow> b \<noteq> []"
    and run: "convert_file lib args npy_format f st = Inr st'"
    and inv: "stdout st = out \<and> (num_files_converted st = 0 \<or> parquet_sizes st \<noteq> 0)"
  shows "stdout st' = out \<and> (num_files_converted st' = 0 \<or> parquet_sizes st' \<noteq> 0)"
proof (cases "path_exists (fs st) (with_suffix f ''.parquet'') \<and> \<not> overwrite args")
  case True
  with run inv convert_file_skips[of st f args lib npy_format] show ?thesis by auto
next
  case False
  from convert_file_Inr[OF False run] enc
  have "parquet_sizes st' \<noteq> 0 \<and> stdout st' = stdout st" by auto
  with inv show ?thesis by simp
qed

lemma directories_matching_state:
  assumes "directories_matching d pat st = Inr (dirs, st1)"
  shows "\<exists>cs. st1 = st\<lparr>calls := cs\<rparr>"
proof (cases "glob (fs st) d pat")
  case (Inl x)
  with assms show ?thesis
    by (simp add: directories_matching_def glob_list_def Let_def fs_trace)
next
  case (Inr items)
  from directories_matching_eq[OF Inr] assms show ?thesis by auto
qed

lemma convert_campaign_keeps:
  assumes enc: "\<forall>cols e c b. to_parquet lib cols e c = Some b \<longrightarrow> b \<noteq> []"
    and run: "convert_campaign lib args c st = Inr st'"
    and inv: "stdout st = out \<and> (num_files_converted st = 0 \<or> parquet_sizes st \<noteq> 0)"
  shows "stdout st' = out \<and> (num_files_converted st' = 0 \<or> parquet_sizes st' \<noteq> 0)"
proof -
  from run obtain dirs st1 st2 where
    d: "directories_matching c (subdirectory_pattern args) st = Inr (dirs, st1)"
    and l: "for_each (convert_experiment lib args) dirs st1 = Inr st2"
    and st': "st' = (if dirs = [] then st2\<lparr>empty_directories := empty_directories st2
                       @ [no_subdirectories_message c (subdirectory_pattern args)]\<rparr> else st2)"
    by (auto simp: convert_campaign_def split: sum.splits)
  from directories_matching_state[OF d] inv
  have i1: "stdout st1 = out \<and> (num_files_converted st1 = 0 \<or> parquet_sizes st1 \<noteq> 0)"
    by auto
  have "stdout st2 = out \<and> (num_files_converted st2 = 0 \<or> parquet_sizes st2 \<noteq> 0)"
    by (rule for_each_preserves[where P="\<lambda>s. stdout s = out \<and> (num_files_converted s = 0 \<or> parquet_sizes s \<noteq> 0)",
          OF _ i1 l]) (rule convert_experiment_keeps[OF enc])
  with st' show ?thesis by auto
qed

lemma final_feedback_message:
  assumes "num_files_converted st = 0 \<or> parquet_sizes st \<noteq> 0"
  shows "final_feedback ow st =
     Inr (print (if num_files_converted st \<noteq> 0
                 then ConvertedSmaller (num_files_converted st)
                        (of_nat (original_sizes st) / of_nat (parquet_sizes st))
                 else if \<not> ow \<and> num_files_skipped st \<noteq> 0
                 then SkippedExisting (num_files_skipped st)
                 else NoFilesConverted) st)"
  using assms by (auto simp: final_feedback_def)

lemma csv_run_stdout:
  assumes enc: "\<forall>cols e c b. to_parquet lib cols e c = Some b \<longrightarrow> b \<noteq> []"
    and run: "csv_to_parquet lib args files = Inr st"
  shows "stdout st =
     [Line (csv_banner args),
      if num_files_converted st \<noteq> 0
      then ConvertedSmaller (num_files_converted st)
             (of_nat (original_sizes st) / of_nat (parquet_sizes st))
      else if \<not> overwrite args \<and> num_files_skipped st \<noteq> 0
      then SkippedExisting (num_files_skipped st)
      else NoFilesConverted]
     @ (if verbose args then [Line [], Line (join [CHR 0x0A] (empty_directories st))] else [])"
proof -
  let ?out = "[Line (csv_banner args)]"
  from run obtain dirs st1 st2 st3 where
    d: "directories_matching (start_directory args) (directory_pattern args) (csv_initial args files)
          = Inr (dirs, st1)"
    and l: "for_each (convert_campaign lib args) dirs st1 = Inr st2"
    and f: "final_feedback (overwrite args) st2 = Inr st3"
    and st: "st = (if verbose args
                   then print (Line (join [CHR 0x0A] (empty_directories st3))) (print (Line []) st3)
                   else st3)"
    by (auto simp: csv_to_parquet_def split: sum.splits if_splits)
  from directories_matching_state[OF d]
  have i1: "stdout st1 = ?out \<and> (num_files_converted st1 = 0 \<or> parquet_sizes st1 \<noteq> 0)"
    by (auto simp: csv_initial_def)
  have i2: "stdout st2 = ?out \<and> (num_files_converted st2 = 0 \<or> parquet_sizes st2 \<noteq> 0)"
    by (rule for_each_preserves[where P="\<lambda>s. stdout s = ?out \<and> (num_files_converted s = 0 \<or> parquet_sizes s \<noteq> 0)",
          OF _ i1 l]) (rule convert_campaign_keeps[OF enc])
  from i2 final_feedback_message[of st2 "overwrite args"] f
  have st3: "st3 = print (if num_files_converted st2 \<noteq> 0
                 then ConvertedSmaller (num_files_converted st2)
                        (of_nat (original_sizes st2) / of_nat (parquet_sizes st2))
                 else if \<not> overwrite args \<and> num_files_skipped st2 \<noteq> 0
                 then SkippedExisting (num_files_skipped st2)
                 else NoFilesConverted) st2"
    by simp
  from st st3 i2 show ?thesis
    by (simp add: print_def)
qed

lemma npy_run_stdout:
  assumes enc: "\<forall>cols e c b. to_parquet lib cols e c = Some b \<longrightarrow> b \<noteq> []"
    and run: "npy_to_parquet lib args files = Inr st"
  shows "stdout st =
     [Line (npy_banner args),
      if num_files_converted st \<noteq> 0
      then ConvertedSmaller (num_files_converted st)
             (of_nat (original_sizes st) / of_nat (parquet_sizes st))
      else if \<not> overwrite args \<and> num_files_skipped st \<noteq> 0
      then SkippedExisting (num_files_skipped st)
      else NoFilesConverted]"
proof -
  let ?out = "[Line (npy_banner args)]"
  from run obtain npy_format s0 where
    lf: "load_format lib args (npy_initial files) = Inr (npy_format, s0)"
    and sc: "npy_scan lib args npy_format s0 = Inr st"
    by (auto simp: npy_to_parquet_def split: sum.splits)
  from lf have s0: "stdout s0 = [] \<and> num_files_converted s0 = 0"
    by (auto simp: load_format_def trace_def Let_def npy_initial_def split: option.splits)
  let ?s1 = "trace (Glob (start_directory args) (npy_pattern args)) (print (Line (npy_banner args)) s0)"
  from sc obtain found st2 where
    l: "for_each (convert_file lib args npy_format) found ?s1 = Inr st2"
    and f: "final_feedback (overwrite args) st2 = Inr st"
    by (auto simp: npy_scan_def glob_list_def Let_def split: sum.splits)
  from s0 have i1: "stdout ?s1 = ?out \<and> (num_files_converted ?s1 = 0 \<or> parquet_sizes ?s1 \<noteq> 0)"
    by (auto simp: npy_initial_def trace_def print_def)
  have i2: "stdout st2 = ?out \<and> (num_files_converted st2 = 0 \<or> parquet_sizes st2 \<noteq> 0)"
    by (rule for_each_preserves[where P="\<lambda>s. stdout s = ?out \<and> (num_files_converted s = 0 \<or> parquet_sizes s \<noteq> 0)",
          OF _ i1 l]) (rule convert_file_keeps[OF enc])
  from i2 final_feedback_message[of st2 "overwrite args"] f
  have "st = print (if num_files_converted st2 \<noteq> 0
                 then ConvertedSmaller (num_files_converted st2)
                        (of_nat (original_sizes st2) / of_nat (parquet_sizes st2))
                 else if \<not> overwrite args \<and> num_files_skipped st2 \<noteq> 0
                 then SkippedExisting (num_files_skipped st2)
                 else NoFilesConverted) st2"
    by simp
  with i2 show ?thesis
    by (simp add: print_def)
qed

lemma one_experiment_run:
  "raised (csv_to_parquet sample_library sample_csv_arguments one_experiment) = None
   \<and> num_files_converted (state_of (csv_to_parquet sample_library sample_csv_arguments one_experiment)) = 1
   \<and> original_sizes (state_of (csv_to_parquet sample_library sample_csv_arguments one_experiment)) = 58
   \<and> parquet_sizes (state_of (csv_to_parquet sample_library sample_csv_arguments one_experiment)) = 19"
  by (simp add: raised_def state_of_def Let_def csv_defs path_defs table_defs sample_defs sample_files)

lemma converted_array_run:
  "raised (npy_to_parquet sample_library sample_npy_arguments converted_array) = None
   \<and> num_files_converted (state_of (npy_to_parquet sample_library sample_npy_arguments converted_array)) = 0
   \<and> num_files_skipped (state_of (npy_to_parquet sample_library sample_npy_arguments converted_array)) = 1"
  by (simp add: raised_def state_of_def Let_def npy_defs path_defs table_defs sample_defs sample_files)

lemma no_arrays_run:
  "raised (npy_to_parquet sample_library sample_npy_arguments no_arrays) = None
   \<and> num_files_converted (state_of (npy_to_parquet sample_library sample_npy_arguments no_arrays)) = 0
   \<and> num_files_skipped (state_of (npy_to_parquet sample_library sample_npy_arguments no_arrays)) = 0"
  by (simp add: raised_def state_of_def Let_def npy_defs path_defs table_defs sample_defs sample_files)

lemma sample_encoder_nonempty:
  "\<forall>cols e c b. to_parquet sample_library cols e c = Some b \<longrightarrow> b \<noteq> []"
  by (auto simp: sample_library_def split: if_splits)

section \<open>The claims\<close>

lemma map_table_float32: "map_table lib (npy_format\<lparr>float32 := b\<rparr>) = map_table lib npy_format"
  by (intro ext) (simp add: map_table_def split: option.splits)

lemma convert_file_float32:
  "convert_file lib args (npy_format\<lparr>float32 := b\<rparr>) = convert_file lib args npy_format"
  unfolding convert_file_def map_table_float32 by (rule refl)

lemma convert_dates_safe_load:
  "convert_dates (lib\<lparr>safe_load := g\<rparr>) ds df = convert_dates lib ds df"
  by (induction lib ds df rule: convert_dates.induct) (auto split: option.splits)

lemma map_table_safe_load: "map_table (lib\<lparr>safe_load := g\<rparr>) = map_table lib"
  by (intro ext) (simp add: map_table_def convert_dates_safe_load split: option.splits)

lemma write_parquet_safe_load: "write_parquet (lib\<lparr>safe_load := g\<rparr>) = write_parquet lib"
  by (intro ext) (simp add: write_parquet_def)

lemma numpy_load_safe_load: "numpy_load (lib\<lparr>safe_load := g\<rparr>) = numpy_load lib"
  by simp

lemma convert_file_safe_load: "convert_file (lib\<lparr>safe_load := g\<rparr>) = convert_file lib"
  unfolding convert_file_def map_table_safe_load write_parquet_safe_load numpy_load_safe_load
  by (rule refl)

lemma npy_scan_safe_load: "npy_scan (lib\<lparr>safe_load := g\<rparr>) = npy_scan lib"
  unfolding npy_scan_def convert_file_safe_load by (rule refl)

lemma npy_scan_float32:
  "npy_scan lib args (npy_format\<lparr>float32 := b\<rparr>) = npy_scan lib args npy_format"
  unfolding npy_scan_def convert_file_float32 by (rule refl)

lemma npy_run_float32:
  "npy_to_parquet (lib\<lparr>safe_load := \<lambda>text. map_option (\<lambda>f. f\<lparr>float32 := b\<rparr>) (safe_load lib text)\<rparr>) args files
     = npy_to_parquet lib args files"
  unfolding npy_to_parquet_def npy_scan_safe_load
  by (auto simp: load_format_def Let_def npy_scan_float32 split: option.splits)

text \<open>
  C9. The array pipeline never reads the field \<open>float32\<close> of the format: whatever value
  the field is given, the table mapped from an array is the same, each file is
  converted in the same way, and the whole scan (what it writes, counts and prints, or
  the error it raises) is the same. So is the whole run when the YAML loader gives
  the field another value in every format it loads.
\<close>

theorem float32_never_read:
  "map_table lib (npy_format\<lparr>float32 := b\<rparr>) array = map_table lib npy_format array
   \<and> convert_file lib args (npy_format\<lparr>float32 := b\<rparr>) f st = convert_file lib args npy_format f st
   \<and> npy_scan lib args (npy_format\<lparr>float32 := b\<rparr>) st = npy_scan lib args npy_format st
   \<and> npy_to_parquet
        (lib\<lparr>safe_load := \<lambda>text. map_option (\<lambda>f. f\<lparr>float32 := b\<rparr>) (safe_load lib text)\<rparr>)
        args files
     = npy_to_parquet lib args files"
  by (simp add: npy_scan_float32 convert_file_float32 map_table_float32 npy_run_float32)

text \<open>
  C1, as amended. In the tabular pipeline an experiment directory that is not skipped and
  in which the glob for the CSV pattern returns no file, and a campaign directory in
  which the glob for the subdirectory pattern returns no visible subdirectory, are not
  errors: the step of the loop records one diagnostic entry, writes no file, changes no
  counter, and the loop goes on. In the array pipeline a start directory in which the
  glob for the pattern returns no file is not an error either: the run writes nothing,
  prints that no files were converted and ends normally; that script keeps no list of
  diagnostics. A pattern on which the glob call itself raises (the empty pattern,
  \<open>.\<close>) is not an empty match: the step aborts there.
\<close>

theorem empty_match_is_recorded:
  "(\<not> (path_exists (fs st) (with_suffix e ''.parquet'') \<and> \<not> overwrite args)
      \<and> glob (fs st) e (csv_pattern args) = Inr []
    \<longrightarrow> convert_experiment lib args e st =
          Inr (st\<lparr>calls := calls st @ [Exists (with_suffix e ''.parquet''), Glob e (csv_pattern args)],
                  empty_directories := empty_directories st @ [no_files_message e (csv_pattern args)]\<rparr>))
   \<and> (glob (fs st) c (subdirectory_pattern args) = Inr items
      \<and> filter (\<lambda>item. is_dir (fs st) item \<and> \<not> startswith (path_name item) ''.'') items = []
    \<longrightarrow> convert_campaign lib args c st =
          Inr (st\<lparr>calls := calls st @ Glob c (subdirectory_pattern args) # map IsDir items,
                  empty_directories := empty_directories st
                    @ [no_subdirectories_message c (subdirectory_pattern args)]\<rparr>))
   \<and> (load_format lib nargs (npy_initial files) = Inr (npy_format, st0)
      \<and> glob files (start_directory nargs) (npy_pattern nargs) = Inr []
    \<longrightarrow> npy_to_parquet lib nargs files =
          Inr \<lparr>fs = files, calls = calls st0 @ [Glob (start_directory nargs) (npy_pattern nargs)],
               stdout = [Line (npy_banner nargs), NoFilesConverted],
               original_sizes = 0, parquet_sizes = 0, num_files_converted = 0,
               num_files_skipped = 0\<rparr>)"
  using convert_experiment_empty[of st e args lib] convert_campaign_empty[of st c args items lib]
    npy_empty_run[of lib nargs files npy_format st0]
  by blast

theorem empty_match_is_recorded_witness:
  "convert_experiment sample_library sample_csv_arguments [''data'', ''C1'', ''E2'']
      (csv_initial sample_csv_arguments one_experiment) =
     Inr ((csv_initial sample_csv_arguments one_experiment)
            \<lparr>calls := [Exists [''data'', ''C1'', ''E2.parquet''],
                       Glob [''data'', ''C1'', ''E2''] ''*.[Cc][Ss][Vv]''],
             empty_directories := [''data/C1/E2: No files matching '' @ quote ''*.[Cc][Ss][Vv]'']\<rparr>)
   \<and> convert_campaign sample_library sample_csv_arguments [''data'', ''C2'']
      (csv_initial sample_csv_arguments one_experiment) =
     Inr ((csv_initial sample_csv_arguments one_experiment)
            \<lparr>calls := [Glob [''data'', ''C2''] ''*''],
             empty_directories := [''data/C2: No subdirectories matching '' @ quote ''*'']\<rparr>)
   \<and> npy_to_parquet sample_library sample_npy_arguments no_arrays =
     Inr \<lparr>fs = no_arrays, calls = [Glob [''data''] ''*.[Nn][Pp][Yy]''],
          stdout = [Line (npy_banner sample_npy_arguments), NoFilesConverted],
          original_sizes = 0, parquet_sizes = 0, num_files_converted = 0,
          num_files_skipped = 0\<rparr>"
  using empty_match_is_recorded[of "csv_initial sample_csv_arguments one_experiment"
      "[''data'', ''C1'', ''E2'']" sample_csv_arguments sample_library "[''data'', ''C2'']" "[]"
      sample_npy_arguments no_arrays default_format "npy_initial no_arrays"]
    glob_E2 glob_C2 glob_no_arrays
  by (simp add: csv_initial_def npy_initial_def load_format_def sample_csv_arguments_def
      sample_npy_arguments_def
      sample_library_def path_exists_def with_suffix_def with_name_def path_name_def suffix_of_def
      one_experiment_def no_files_message_def no_subdirectories_message_def str_path_def)

text \<open>
  C1 as stated fails twice. With no campaign directory under the start directory the
  tabular script does not end normally: line 239 reads \<open>arguments.directory\<close>, an
  attribute the parser never defines, and the run dies before the summary, with no
  diagnostic recorded. And the array script, run on a directory with no matching
  file, ends normally but leaves no diagnostic anywhere: all it keeps is its counters
  and what it printed.
\<close>

theorem no_campaign_directory_raises:
  "raised (csv_to_parquet sample_library sample_csv_arguments no_campaigns)
     = Some (AttributeError ''directory'')
   \<and> empty_directories (state_of (csv_to_parquet sample_library sample_csv_arguments no_campaigns))
     = []
   \<and> npy_to_parquet sample_library sample_npy_arguments no_arrays =
     Inr \<lparr>fs = no_arrays, calls = [Glob [''data''] ''*.[Nn][Pp][Yy]''],
          stdout = [Line (npy_banner sample_npy_arguments), NoFilesConverted],
          original_sizes = 0, parquet_sizes = 0, num_files_converted = 0,
          num_files_skipped = 0\<rparr>"
proof -
  have "raised (csv_to_parquet sample_library sample_csv_arguments no_campaigns)
       = Some (AttributeError ''directory'')
     \<and> empty_directories (state_of (csv_to_parquet sample_library sample_csv_arguments no_campaigns))
       = []"
    by (simp add: raised_def state_of_def csv_defs path_defs sample_defs sample_files)
  moreover have "npy_to_parquet sample_library sample_npy_arguments no_arrays =
     Inr \<lparr>fs = no_arrays, calls = [Glob [''data''] ''*.[Nn][Pp][Yy]''],
          stdout = [Line (npy_banner sample_npy_arguments), NoFilesConverted],
          original_sizes = 0, parquet_sizes = 0, num_files_converted = 0,
          num_files_skipped = 0\<rparr>"
    using npy_empty_run[of sample_library sample_npy_arguments no_arrays default_format
        "npy_initial no_arrays"] glob_no_arrays
    by (simp add: npy_initial_def load_format_def sample_npy_arguments_def sample_library_def)
  ultimately show ?thesis by simp
qed

text \<open>
  C7. In both pipelines, when the derived output path exists and overwrite is not
  requested, the step does nothing but the existence check: one more skipped file, the
  same file system, sizes and counts. Otherwise the skipped count stays and the step
  goes on to discovery and loading (the glob of the experiment; \<open>stat\<close> and
  \<open>numpy.load\<close> of the array file), and when it ends normally with files to convert
  the output path holds the bytes just encoded, their size is added to the total and
  one more file is counted as converted.
\<close>

theorem skip_check_comes_first:
  "(path_exists (fs st) (with_suffix e ''.parquet'') \<and> \<not> overwrite args
    \<longrightarrow> convert_experiment lib args e st =
          Inr (st\<lparr>calls := calls st @ [Exists (with_suffix e ''.parquet'')],
                  num_files_skipped := num_files_skipped st + 1\<rparr>))
   \<and> (path_exists (fs rs) (with_suffix f ''.parquet'') \<and> \<not> overwrite nargs
    \<longrightarrow> convert_file lib nargs npy_format f rs =
          Inr (rs\<lparr>calls := calls rs @ [Exists (with_suffix f ''.parquet'')],
                  num_files_skipped := num_files_skipped rs + 1\<rparr>))
   \<and> (\<not> (path_exists (fs st) (with_suffix e ''.parquet'') \<and> \<not> overwrite args)
    \<longrightarrow> num_files_skipped (state_of (convert_experiment lib args e st)) = num_files_skipped st
        \<and> (\<exists>rest. calls (state_of (convert_experiment lib args e st)) =
              calls st @ [Exists (with_suffix e ''.parquet''), Glob e (csv_pattern args)] @ rest))
   \<and> (\<not> (path_exists (fs st) (with_suffix e ''.parquet'') \<and> \<not> overwrite args)
      \<and> glob (fs st) e (csv_pattern args) = Inr found \<and> found \<noteq> []
      \<and> convert_experiment lib args e st = Inr st'
    \<longrightarrow> (\<exists>dfs b.
          map Some dfs = map (\<lambda>p. pandas_read_csv lib (fs st) p (truthy (datetimes args))
                                    (truthy (index args))) (sort found)
          \<and> to_parquet lib (columns (normalize lib args dfs)) (parquet_engine args)
               (parquet_compression args) = Some b
          \<and> fs st' = store (with_suffix e ''.parquet'') b (fs st)
          \<and> read_bytes (fs st') (with_suffix e ''.parquet'') = Some b
          \<and> original_sizes st' = original_sizes st + sum_list (map (st_size (fs st)) (sort found))
          \<and> parquet_sizes st' = parquet_sizes st + length b
          \<and> num_files_converted st' = num_files_converted st + 1))
   \<and> (\<not> (path_exists (fs rs) (with_suffix f ''.parquet'') \<and> \<not> overwrite nargs)
    \<longrightarrow> num_files_skipped (state_of (convert_file lib nargs npy_format f rs)) = num_files_skipped rs
        \<and> (\<exists>rest. calls (state_of (convert_file lib nargs npy_format f rs)) =
              calls rs @ [Exists (with_suffix f ''.parquet''), Stat f, NumpyLoad f] @ rest))
   \<and> (\<not> (path_exists (fs rs) (with_suffix f ''.parquet'') \<and> \<not> overwrite nargs)
      \<and> convert_file lib nargs npy_format f rs = Inr rs'
    \<longrightarrow> (\<exists>b0 array df b.
          read_bytes (fs rs) f = Some b0 \<and> numpy_load lib b0 = Some array
          \<and> map_table lib npy_format array = Some df
          \<and> to_parquet lib (columns df) (parquet_engine nargs) (parquet_compression nargs) = Some b
          \<and> fs rs' = store (with_suffix f ''.parquet'') b (fs rs)
          \<and> read_bytes (fs rs') (with_suffix f ''.parquet'') = Some b
          \<and> original_sizes rs' = original_sizes rs + st_size (fs rs) f
          \<and> parquet_sizes rs' = parquet_sizes rs + length b
          \<and> num_files_converted rs' = num_files_converted rs + 1))"
proof (intro conjI impI)
  assume "path_exists (fs st) (with_suffix e ''.parquet'') \<and> \<not> overwrite args"
  then show "convert_experiment lib args e st =
          Inr (st\<lparr>calls := calls st @ [Exists (with_suffix e ''.parquet'')],
                  num_files_skipped := num_files_skipped st + 1\<rparr>)"
    by (simp add: convert_experiment_skips)
next
  assume "path_exists (fs rs) (with_suffix f ''.parquet'') \<and> \<not> overwrite nargs"
  then show "convert_file lib nargs npy_format f rs =
          Inr (rs\<lparr>calls := calls rs @ [Exists (with_suffix f ''.parquet'')],
                  num_files_skipped := num_files_skipped rs + 1\<rparr>)"
    by (simp add: convert_file_skips)
next
  assume a: "\<not> (path_exists (fs st) (with_suffix e ''.parquet'') \<and> \<not> overwrite args)"
  from convert_experiment_proceeds[OF a, where lib=lib]
  show "num_files_skipped (state_of (convert_experiment lib args e st)) = num_files_skipped st"
    and "\<exists>rest. calls (state_of (convert_experiment lib args e st)) =
              calls st @ [Exists (with_suffix e ''.parquet''), Glob e (csv_pattern args)] @ rest"
    by blast+
next
  assume a: "\<not> (path_exists (fs st) (with_suffix e ''.parquet'') \<and> \<not> overwrite args)
      \<and> glob (fs st) e (csv_pattern args) = Inr found \<and> found \<noteq> []
      \<and> convert_experiment lib args e st = Inr st'"
  let ?st2 = "st\<lparr>calls := calls st @ [Exists (with_suffix e ''.parquet''), Glob e (csv_pattern args)]\<rparr>"
  from a have "load_and_write lib args e (sort found) ?st2 = Inr st'"
    using convert_experiment_found[of st e args found lib] by simp
  from load_and_write_Inr[OF this]
  show "\<exists>dfs b.
          map Some dfs = map (\<lambda>p. pandas_read_csv lib (fs st) p (truthy (datetimes args))
                                    (truthy (index args))) (sort found)
          \<and> to_parquet lib (columns (normalize lib args dfs)) (parquet_engine args)
               (parquet_compression args) = Some b
          \<and> fs st' = store (with_suffix e ''.parquet'') b (fs st)
          \<and> read_bytes (fs st') (with_suffix e ''.parquet'') = Some b
          \<and> original_sizes st' = original_sizes st + sum_list (map (st_size (fs st)) (sort found))
          \<and> parquet_sizes st' = parquet_sizes st + length b
          \<and> num_files_converted st' = num_files_converted st + 1"
    by (auto simp: read_bytes_store)
next
  assume a: "\<not> (path_exists (fs rs) (with_suffix f ''.parquet'') \<and> \<not> overwrite nargs)"
  from convert_file_proceeds[OF a, where lib=lib and npy_format=npy_format]
  show "num_files_skipped (state_of (convert_file lib nargs npy_format f rs)) = num_files_skipped rs"
    and "\<exists>rest. calls (state_of (convert_file lib nargs npy_format f rs)) =
              calls rs @ [Exists (with_suffix f ''.parquet''), Stat f, NumpyLoad f] @ rest"
    by blast+
next
  assume a: "\<not> (path_exists (fs rs) (with_suffix f ''.parquet'') \<and> \<not> overwrite nargs)
      \<and> convert_file lib nargs npy_format f rs = Inr rs'"
  then have a1: "\<not> (path_exists (fs rs) (with_suffix f ''.parquet'') \<and> \<not> overwrite nargs)"
    and a2: "convert_file lib nargs npy_format f rs = Inr rs'" by blast+
  from convert_file_Inr[OF a1 a2]
  show "\<exists>b0 array df b.
          read_bytes (fs rs) f = Some b0 \<and> numpy_load lib b0 = Some array
          \<and> map_table lib npy_format array = Some df
          \<and> to_parquet lib (columns df) (parquet_engine nargs) (parquet_compression nargs) = Some b
          \<and> fs rs' = store (with_suffix f ''.parquet'') b (fs rs)
          \<and> read_bytes (fs rs') (with_suffix f ''.parquet'') = Some b
          \<and> original_sizes rs' = original_sizes rs + st_size (fs rs) f
          \<and> parquet_sizes rs' = parquet_sizes rs + length b
          \<and> num_files_converted rs' = num_files_converted rs + 1"
    by (auto simp: read_bytes_store)
qed

theorem skip_check_comes_first_witness:
  "convert_experiment sample_library sample_csv_arguments [''data'', ''C1'', ''E1'']
       (csv_initial sample_csv_arguments already_converted) =
     Inr ((csv_initial sample_csv_arguments already_converted)
            \<lparr>calls := [Exists [''data'', ''C1'', ''E1.parquet'']], num_files_skipped := 1\<rparr>)
   \<and> convert_file sample_library sample_npy_arguments default_format [''data'', ''run1.npy'']
       (npy_initial converted_array) =
     Inr ((npy_initial converted_array)
            \<lparr>calls := [Exists [''data'', ''run1.parquet'']], num_files_skipped := 1\<rparr>)
   \<and> num_files_skipped (state_of (convert_experiment sample_library sample_csv_arguments
         [''data'', ''C1'', ''E1''] (csv_initial sample_csv_arguments one_experiment))) = 0
   \<and> (\<exists>rest. calls (state_of (convert_experiment sample_library sample_csv_arguments
         [''data'', ''C1'', ''E1''] (csv_initial sample_csv_arguments one_experiment))) =
         [Exists [''data'', ''C1'', ''E1.parquet''],
          Glob [''data'', ''C1'', ''E1''] ''*.[Cc][Ss][Vv]''] @ rest)
   \<and> (\<exists>b. read_bytes (fs (state_of (convert_experiment sample_library sample_csv_arguments
         [''data'', ''C1'', ''E1''] (csv_initial sample_csv_arguments one_experiment))))
         [''data'', ''C1'', ''E1.parquet''] = Some b
       \<and> parquet_sizes (state_of (convert_experiment sample_library sample_csv_arguments
         [''data'', ''C1'', ''E1''] (csv_initial sample_csv_arguments one_experiment))) = length b)
   \<and> num_files_converted (state_of (convert_experiment sample_library sample_csv_arguments
         [''data'', ''C1'', ''E1''] (csv_initial sample_csv_arguments one_experiment))) = 1
   \<and> num_files_skipped (state_of (convert_file sample_library sample_npy_arguments default_format
         [''data'', ''run1.npy''] (npy_initial four_columns))) = 0
   \<and> (\<exists>rest. calls (state_of (convert_file sample_library sample_npy_arguments default_format
         [''data'', ''run1.npy''] (npy_initial four_columns))) =
         [Exists [''data'', ''run1.parquet''], Stat [''data'', ''run1.npy''],
          NumpyLoad [''data'', ''run1.npy'']] @ rest)
   \<and> (\<exists>b. read_bytes (fs (state_of (convert_file sample_library sample_npy_arguments default_format
         [''data'', ''run1.npy''] (npy_initial four_columns)))) [''data'', ''run1.parquet''] = Some b
       \<and> parquet_sizes (state_of (convert_file sample_library sample_npy_arguments default_format
         [''data'', ''run1.npy''] (npy_initial four_columns))) = length b)
   \<and> num_files_converted (state_of (convert_file sample_library sample_npy_arguments default_format
         [''data'', ''run1.npy''] (npy_initial four_columns))) = 1"
proof -
  let ?E1 = "[''data'', ''C1'', ''E1'']" and ?f = "[''data'', ''run1.npy'']"
  let ?sa = "csv_initial sample_csv_arguments already_converted"
  let ?sb = "csv_initial sample_csv_arguments one_experiment"
  let ?ra = "npy_initial converted_array" and ?rb = "npy_initial four_columns"
  let ?cb = "convert_experiment sample_library sample_csv_arguments ?E1 ?sb"
  let ?fb = "convert_file sample_library sample_npy_arguments default_format ?f ?rb"
  have oe: "with_suffix ?E1 ''.parquet'' = [''data'', ''C1'', ''E1.parquet'']"
    and orn: "with_suffix ?f ''.parquet'' = [''data'', ''run1.parquet'']"
    by (simp_all add: path_defs)
  have a1: "path_exists (fs ?sa) (with_suffix ?E1 ''.parquet'') \<and> \<not> overwrite sample_csv_arguments"
    by (simp add: oe csv_initial_def path_exists_def already_converted_def sample_csv_arguments_def)
  have a2: "path_exists (fs ?ra) (with_suffix ?f ''.parquet'') \<and> \<not> overwrite sample_npy_arguments"
    by (simp add: orn npy_initial_def path_exists_def converted_array_def sample_npy_arguments_def)
  have b1: "\<not> (path_exists (fs ?sb) (with_suffix ?E1 ''.parquet'') \<and> \<not> overwrite sample_csv_arguments)"
    by (simp add: oe csv_initial_def path_exists_def one_experiment_def)
  have b2: "\<not> (path_exists (fs ?rb) (with_suffix ?f ''.parquet'') \<and> \<not> overwrite sample_npy_arguments)"
    by (simp add: orn npy_initial_def path_exists_def four_columns_def)
  have g: "glob (fs ?sb) ?E1 (csv_pattern sample_csv_arguments)
             = Inr [[''data'', ''C1'', ''E1'', ''b.csv''], [''data'', ''C1'', ''E1'', ''a.csv'']]"
    using glob_E1 by (simp add: csv_initial_def sample_csv_arguments_def)
  note eb = not_raised[OF E1_converts] and ef = not_raised[OF run1_converts]
  note A = skip_check_comes_first[of ?sa ?E1 sample_csv_arguments sample_library ?ra ?f
      sample_npy_arguments default_format]
  note B = skip_check_comes_first[of ?sb ?E1 sample_csv_arguments sample_library ?rb ?f
      sample_npy_arguments default_format
      "[[''data'', ''C1'', ''E1'', ''b.csv''], [''data'', ''C1'', ''E1'', ''a.csv'']]"
      "state_of ?cb" "state_of ?fb"]
  from A a1 a2 have skips:
    "convert_experiment sample_library sample_csv_arguments ?E1 ?sa =
       Inr (?sa\<lparr>calls := calls ?sa @ [Exists (with_suffix ?E1 ''.parquet'')],
               num_files_skipped := num_files_skipped ?sa + 1\<rparr>)"
    "convert_file sample_library sample_npy_arguments default_format ?f ?ra =
       Inr (?ra\<lparr>calls := calls ?ra @ [Exists (with_suffix ?f ''.parquet'')],
               num_files_skipped := num_files_skipped ?ra + 1\<rparr>)"
    by blast+
  from B b1 b2 g eb ef have goes:
    "num_files_skipped (state_of ?cb) = num_files_skipped ?sb"
    "\<exists>rest. calls (state_of ?cb) =
        calls ?sb @ [Exists (with_suffix ?E1 ''.parquet''), Glob ?E1 (csv_pattern sample_csv_arguments)] @ rest"
    "\<exists>b. read_bytes (fs (state_of ?cb)) (with_suffix ?E1 ''.parquet'') = Some b
        \<and> parquet_sizes (state_of ?cb) = parquet_sizes ?sb + length b"
    "num_files_converted (state_of ?cb) = num_files_converted ?sb + 1"
    "num_files_skipped (state_of ?fb) = num_files_skipped ?rb"
    "\<exists>rest. calls (state_of ?fb) =
        calls ?rb @ [Exists (with_suffix ?f ''.parquet''), Stat ?f, NumpyLoad ?f] @ rest"
    "\<exists>b. read_bytes (fs (state_of ?fb)) (with_suffix ?f ''.parquet'') = Some b
        \<and> parquet_sizes (state_of ?fb) = parquet_sizes ?rb + length b"
    "num_files_converted (state_of ?fb) = num_files_converted ?rb + 1"
    by blast+
  from skips goes show ?thesis
    by (simp add: oe orn csv_initial_def npy_initial_def sample_csv_arguments_def)
qed

text \<open>
  C10. In the tabular pipeline an experiment directory whose Parquet sibling exists,
  without overwrite, is counted as skipped before it is searched: no glob of the
  directory is made and no diagnostic is recorded, also when the directory holds no
  CSV file.
\<close>

theorem existing_output_skipped_before_glob:
  assumes "path_exists (fs st) (with_suffix e ''.parquet'')" and "\<not> overwrite args"
  shows "convert_experiment lib args e st =
       Inr (st\<lparr>calls := calls st @ [Exists (with_suffix e ''.parquet'')],
               num_files_skipped := num_files_skipped st + 1\<rparr>)
     \<and> num_files_skipped (state_of (convert_experiment lib args e st)) = num_files_skipped st + 1
     \<and> empty_directories (state_of (convert_experiment lib args e st)) = empty_directories st
     \<and> Glob e (csv_pattern args)
          \<notin> set (drop (length (calls st)) (calls (state_of (convert_experiment lib args e st))))"
  by (simp add: convert_experiment_skips[OF assms] state_of_def)

theorem existing_output_skipped_before_glob_witness:
  "glob already_converted [''data'', ''C1'', ''E1''] (csv_pattern sample_csv_arguments) = Inr []
   \<and> convert_experiment sample_library sample_csv_arguments [''data'', ''C1'', ''E1'']
        (csv_initial sample_csv_arguments already_converted) =
       Inr ((csv_initial sample_csv_arguments already_converted)
              \<lparr>calls := [Exists [''data'', ''C1'', ''E1.parquet'']], num_files_skipped := 1\<rparr>)
   \<and> empty_directories (state_of (convert_experiment sample_library sample_csv_arguments
        [''data'', ''C1'', ''E1''] (csv_initial sample_csv_arguments already_converted))) = []"
proof -
  have h1: "path_exists (fs (csv_initial sample_csv_arguments already_converted))
              (with_suffix [''data'', ''C1'', ''E1''] ''.parquet'')"
    by (simp add: csv_initial_def path_defs already_converted_def)
  have h2: "\<not> overwrite sample_csv_arguments"
    by (simp add: sample_csv_arguments_def)
  have out: "with_suffix [''data'', ''C1'', ''E1''] ''.parquet'' = [''data'', ''C1'', ''E1.parquet'']"
    by (simp add: path_defs)
  have g: "glob already_converted [''data'', ''C1'', ''E1''] (csv_pattern sample_csv_arguments) = Inr []"
    using glob_converted_E1 by (simp add: sample_csv_arguments_def)
  from existing_output_skipped_before_glob[OF h1 h2, where lib=sample_library] g
  show ?thesis
    by (simp add: out csv_initial_def state_of_def)
qed

text \<open>
  C2. The claim is that a failed parse aborts the run with a message naming the file
  whose parse failed. The run does abort, but the message names the last file of the
  sorted list: the handler reads the module-level \<open>csv_filename\<close>, left by the loop
  that counted the sizes, not the variable of the list comprehension. Here
  \<open>a.csv\<close> is the file that cannot be read and the message names \<open>b.csv\<close>.
\<close>

theorem failed_read_names_last_file:
  "pandas_read_csv sample_library broken_first_file [''data'', ''C1'', ''E1'', ''a.csv'']
       (truthy (datetimes sample_csv_arguments)) (truthy (index sample_csv_arguments)) = None
   \<and> pandas_read_csv sample_library broken_first_file [''data'', ''C1'', ''E1'', ''b.csv'']
       (truthy (datetimes sample_csv_arguments)) (truthy (index sample_csv_arguments))
       = Some (DataFrame 2 [Column ''cell v'' Float64 [6, 7], Column ''cycle'' Int64 [2, 2]])
   \<and> raised (csv_to_parquet sample_library sample_csv_arguments broken_first_file)
       = Some (Exception (''Failed to read '' @ quote ''data/C1/E1/b.csv''
                          @ ''. Is index column '' @ quote ''t'' @ '' correct?''))"
  by (simp add: raised_def Let_def csv_defs path_defs sample_defs sample_files)

text \<open>
  C3, as amended. For every array file that \<open>numpy.load\<close> has read and on which the
  mapping fails (fewer columns in the array than names in the format, an array that is
  not 2-D, a date column that is missing or whose unit \<open>to_datetime\<close> refuses), and
  where no directory stands at the template's path, the step first writes
  \<open>NPY_FORMAT_DEFAULT\<close> to \<open><name>_format.yml\<close> beside the file and then raises
  the format error, which ends the scan.
\<close>

theorem format_mismatch_writes_template:
  "(\<not> (path_exists (fs st) (with_suffix f ''.parquet'') \<and> \<not> overwrite args)
      \<and> read_bytes (fs st) f = Some b0 \<and> numpy_load lib b0 = Some array
      \<and> map_table lib npy_format array = None \<and> \<not> is_dir (fs st) (format_file_of f)
    \<longrightarrow> convert_file lib args npy_format f st =
          Inl (Exception (does_not_fit f),
               st\<lparr>fs := store (format_file_of f) NPY_FORMAT_DEFAULT (fs st),
                  calls := calls st @ [Exists (with_suffix f ''.parquet''), Stat f, NumpyLoad f,
                                       WriteText (format_file_of f)],
                  original_sizes := original_sizes st + st_size (fs st) f\<rparr>)
        \<and> read_bytes (store (format_file_of f) NPY_FORMAT_DEFAULT (fs st)) (format_file_of f)
            = Some NPY_FORMAT_DEFAULT)
   \<and> format_file_of f = butlast f @ [path_name f @ ''_format.yml'']
   \<and> (length cols < length (format_columns npy_format)
    \<longrightarrow> map_table lib npy_format (Matrix t r cols) = None)
   \<and> (format_columns npy_format \<noteq> [] \<longrightarrow> map_table lib npy_format OtherArray = None)
   \<and> (columns_dict array 0 (format_columns npy_format) [] = Some d
      \<and> date_column npy_format = (date_name, date_units) # others
      \<and> find_column date_name (DataFrame 0 d) = Some c
      \<and> to_datetime lib (column_dtype c) (cells c) date_units = None
    \<longrightarrow> map_table lib npy_format array = None)
   \<and> (glob (fs st0) (start_directory args) (npy_pattern args) = Inr (xs @ f # ys)
      \<and> for_each (convert_file lib args npy_format) xs
           (trace (Glob (start_directory args) (npy_pattern args))
              (print (Line (npy_banner args)) st0)) = Inr st
      \<and> convert_file lib args npy_format f st = Inl x
    \<longrightarrow> npy_scan lib args npy_format st0 = Inl x)"
proof (intro conjI impI)
  assume a: "\<not> (path_exists (fs st) (with_suffix f ''.parquet'') \<and> \<not> overwrite args)
      \<and> read_bytes (fs st) f = Some b0 \<and> numpy_load lib b0 = Some array
      \<and> map_table lib npy_format array = None \<and> \<not> is_dir (fs st) (format_file_of f)"
  then have "convert_file lib args npy_format f st =
     (if is_dir (fs st) (format_file_of f)
      then Inl (LibraryError (WriteText (format_file_of f)),
                st\<lparr>calls := calls st @ [Exists (with_suffix f ''.parquet''), Stat f, NumpyLoad f,
                                        WriteText (format_file_of f)],
                   original_sizes := original_sizes st + st_size (fs st) f\<rparr>)
      else Inl (Exception (does_not_fit f),
                st\<lparr>fs := store (format_file_of f) NPY_FORMAT_DEFAULT (fs st),
                   calls := calls st @ [Exists (with_suffix f ''.parquet''), Stat f, NumpyLoad f,
                                        WriteText (format_file_of f)],
                   original_sizes := original_sizes st + st_size (fs st) f\<rparr>))"
    by (intro convert_file_mismatch) blast+
  with a show "convert_file lib args npy_format f st =
          Inl (Exception (does_not_fit f),
               st\<lparr>fs := store (format_file_of f) NPY_FORMAT_DEFAULT (fs st),
                  calls := calls st @ [Exists (with_suffix f ''.parquet''), Stat f, NumpyLoad f,
                                       WriteText (format_file_of f)],
                  original_sizes := original_sizes st + st_size (fs st) f\<rparr>)"
    by simp
next
  show "read_bytes (store (format_file_of f) NPY_FORMAT_DEFAULT (fs st)) (format_file_of f)
            = Some NPY_FORMAT_DEFAULT"
    by (rule read_bytes_store)
next
  show "format_file_of f = butlast f @ [path_name f @ ''_format.yml'']"
    by (simp add: format_file_of_def with_name_def)
next
  assume "length cols < length (format_columns npy_format)"
  then show "map_table lib npy_format (Matrix t r cols) = None"
    by (simp add: map_table_def columns_dict_too_few)
next
  assume "format_columns npy_format \<noteq> []"
  then show "map_table lib npy_format OtherArray = None"
    by (simp add: map_table_def columns_dict_other)
next
  assume "columns_dict array 0 (format_columns npy_format) [] = Some d
      \<and> date_column npy_format = (date_name, date_units) # others
      \<and> find_column date_name (DataFrame 0 d) = Some c
      \<and> to_datetime lib (column_dtype c) (cells c) date_units = None"
  then show "map_table lib npy_format array = None"
    by (simp add: map_table_def find_column_def)
next
  assume "glob (fs st0) (start_directory args) (npy_pattern args) = Inr (xs @ f # ys)
      \<and> for_each (convert_file lib args npy_format) xs
           (trace (Glob (start_directory args) (npy_pattern args))
              (print (Line (npy_banner args)) st0)) = Inr st
      \<and> convert_file lib args npy_format f st = Inl x"
  then show "npy_scan lib args npy_format st0 = Inl x"
    using npy_scan_aborts[of st0 args xs f ys lib npy_format st x] by blast
qed

theorem format_mismatch_writes_template_witness:
  "convert_file sample_library sample_npy_arguments default_format [''data'', ''run1.npy'']
       (npy_initial three_columns) =
     Inl (Exception (does_not_fit [''data'', ''run1.npy'']),
          (npy_initial three_columns)
            \<lparr>fs := three_columns @ [([''data'', ''run1.npy_format.yml''], File NPY_FORMAT_DEFAULT)],
             calls := [Exists [''data'', ''run1.parquet''], Stat [''data'', ''run1.npy''],
                       NumpyLoad [''data'', ''run1.npy''],
                       WriteText [''data'', ''run1.npy_format.yml'']],
             original_sizes := 9\<rparr>)
   \<and> format_file_of [''data'', ''run1.npy''] = [''data'', ''run1.npy_format.yml'']
   \<and> map_table sample_library default_format (Matrix Float64 2 [[0, 1], [5, 6], [7, 8]]) = None
   \<and> map_table sample_library default_format OtherArray = None
   \<and> map_table sample_library (default_format\<lparr>date_column := [(''Time'', ''fortnight'')]\<rparr>)
        (Matrix Float64 2 [[0, 1], [5, 6], [7, 8], [9, 10]]) = None
   \<and> raised (npy_scan sample_library sample_npy_arguments default_format (npy_initial three_columns))
       = Some (Exception (does_not_fit [''data'', ''run1.npy'']))"
proof -
  let ?f = "[''data'', ''run1.npy'']"
  let ?ini = "npy_initial three_columns"
  let ?a3 = "Matrix Float64 2 [[0, 1], [5, 6], [7, 8 :: int]]"
  let ?a4 = "Matrix Float64 2 [[0, 1], [5, 6], [7, 8], [9, 10 :: int]]"
  let ?bad = "default_format\<lparr>date_column := [(''Time'', ''fortnight'')]\<rparr>"
  let ?scan = "trace (Glob (start_directory sample_npy_arguments) (npy_pattern sample_npy_arguments))
               (print (Line (npy_banner sample_npy_arguments)) ?ini)"
  have ff: "format_file_of ?f = [''data'', ''run1.npy_format.yml'']"
    and out: "with_suffix ?f ''.parquet'' = [''data'', ''run1.parquet'']"
    by (simp_all add: format_file_of_def path_defs)
  have m3: "map_table sample_library default_format ?a3 = None"
    by (simp add: map_table_def default_format_def)
  have ns: "\<And>st. fs st = three_columns \<Longrightarrow>
       \<not> (path_exists (fs st) (with_suffix ?f ''.parquet'') \<and> \<not> overwrite sample_npy_arguments)
       \<and> read_bytes (fs st) ?f = Some ''NUMPY 2x3''
       \<and> numpy_load sample_library ''NUMPY 2x3'' = Some ?a3
       \<and> map_table sample_library default_format ?a3 = None
       \<and> \<not> is_dir (fs st) (format_file_of ?f)"
  proof -
    fix st :: "'a run_state_scheme"
    assume st: "fs st = three_columns"
    have l: "numpy_load sample_library ''NUMPY 2x3'' = Some ?a3"
      by (simp add: sample_library_def)
    have o: "\<not> path_exists (fs st) (with_suffix ?f ''.parquet'')"
      "read_bytes (fs st) ?f = Some ''NUMPY 2x3''" "\<not> is_dir (fs st) (format_file_of ?f)"
      by (simp_all add: st ff out path_exists_def read_bytes_def is_dir_def three_columns_def)
    from l o m3 show "\<not> (path_exists (fs st) (with_suffix ?f ''.parquet'') \<and> \<not> overwrite sample_npy_arguments)
       \<and> read_bytes (fs st) ?f = Some ''NUMPY 2x3''
       \<and> numpy_load sample_library ''NUMPY 2x3'' = Some ?a3
       \<and> map_table sample_library default_format ?a3 = None
       \<and> \<not> is_dir (fs st) (format_file_of ?f)"
      by blast
  qed
  have h0: "fs ?ini = three_columns" by (simp add: npy_initial_def)
  have h1: "fs ?scan = three_columns" by (simp add: npy_initial_def fs_trace fs_print)
  note A = format_mismatch_writes_template[of ?ini ?f sample_npy_arguments "''NUMPY 2x3''"
      sample_library ?a3 default_format "[[0, 1], [5, 6], [7, 8]]" Float64 2]
  from A ns[OF h0] have c1: "convert_file sample_library sample_npy_arguments default_format ?f ?ini =
          Inl (Exception (does_not_fit ?f),
               ?ini\<lparr>fs := store (format_file_of ?f) NPY_FORMAT_DEFAULT (fs ?ini),
                  calls := calls ?ini @ [Exists (with_suffix ?f ''.parquet''), Stat ?f, NumpyLoad ?f,
                                       WriteText (format_file_of ?f)],
                  original_sizes := original_sizes ?ini + st_size (fs ?ini) ?f\<rparr>)"
    by blast
  have hyp4: "format_columns default_format \<noteq> []"
    by (simp add: default_format_def)
  from A hyp4 have c4: "map_table sample_library default_format OtherArray = None"
    by blast
  note B = format_mismatch_writes_template[where lib=sample_library and npy_format="?bad"
      and array="?a4" and date_name="''Time''" and date_units="''fortnight''" and others="[]"
      and d="[Column ''Time'' Float64 [0, 1], Column ''Current'' Float64 [5, 6],
              Column ''Voltage'' Float64 [7, 8], Column ''Temperature'' Float64 [9, 10]]"
      and c="Column ''Time'' Float64 [0, 1]"]
  have hyp5: "columns_dict ?a4 0 (format_columns ?bad) []
        = Some [Column ''Time'' Float64 [0, 1], Column ''Current'' Float64 [5, 6],
                Column ''Voltage'' Float64 [7, 8], Column ''Temperature'' Float64 [9, 10]]
      \<and> date_column ?bad = (''Time'', ''fortnight'') # []
      \<and> find_column ''Time'' (DataFrame 0 [Column ''Time'' Float64 [0, 1], Column ''Current'' Float64 [5, 6],
              Column ''Voltage'' Float64 [7, 8], Column ''Temperature'' Float64 [9, 10]])
          = Some (Column ''Time'' Float64 [0, 1])
      \<and> to_datetime sample_library (column_dtype (Column ''Time'' Float64 [0, 1]))
            (cells (Column ''Time'' Float64 [0, 1 :: int])) ''fortnight'' = None"
    by (simp add: default_format_def find_column_def sample_library_def)
  from B hyp5 have c5: "map_table sample_library ?bad ?a4 = None"
    by blast
  note C = format_mismatch_writes_template[of ?scan ?f sample_npy_arguments "''NUMPY 2x3''"
      sample_library ?a3 default_format _ _ _ _ _ _ _ _ ?ini "[]" "[]"]
  from C ns[OF h1] have c6a: "convert_file sample_library sample_npy_arguments default_format ?f ?scan =
          Inl (Exception (does_not_fit ?f),
               ?scan\<lparr>fs := store (format_file_of ?f) NPY_FORMAT_DEFAULT (fs ?scan),
                  calls := calls ?scan @ [Exists (with_suffix ?f ''.parquet''), Stat ?f, NumpyLoad ?f,
                                       WriteText (format_file_of ?f)],
                  original_sizes := original_sizes ?scan + st_size (fs ?scan) ?f\<rparr>)"
    by blast
  have g: "glob (fs ?ini) (start_directory sample_npy_arguments) (npy_pattern sample_npy_arguments)
             = Inr ([] @ ?f # [])"
    by (simp add: npy_initial_def sample_npy_arguments_def path_defs three_columns_def)
  from C g c6a have c6: "raised (npy_scan sample_library sample_npy_arguments default_format ?ini)
       = Some (Exception (does_not_fit ?f))"
    by (simp add: raised_def)
  from c1 have c1': "convert_file sample_library sample_npy_arguments default_format ?f ?ini =
     Inl (Exception (does_not_fit ?f),
          ?ini\<lparr>fs := three_columns @ [([''data'', ''run1.npy_format.yml''], File NPY_FORMAT_DEFAULT)],
             calls := [Exists [''data'', ''run1.parquet''], Stat ?f, NumpyLoad ?f,
                       WriteText [''data'', ''run1.npy_format.yml'']],
             original_sizes := 9\<rparr>)"
    by (simp add: ff out npy_initial_def three_columns_def st_size_def)
  from c1' ff m3 c4 c5 c6 show ?thesis by simp
qed

text \<open>
  C3 as stated fails for a file that \<open>numpy.load\<close> itself cannot read: the load
  stands before the \<open>try\<close>, so its error ends the run and no template is written.
\<close>

theorem unreadable_array_leaves_no_template:
  "raised (npy_to_parquet sample_library sample_npy_arguments unreadable_array)
     = Some (LibraryError (NumpyLoad [''data'', ''run1.npy'']))
   \<and> fs (state_of (npy_to_parquet sample_library sample_npy_arguments unreadable_array))
     = unreadable_array
   \<and> \<not> path_exists (fs (state_of (npy_to_parquet sample_library sample_npy_arguments unreadable_array)))
        [''data'', ''run1.npy_format.yml'']"
  by (simp add: raised_def state_of_def Let_def npy_defs path_defs sample_defs sample_files)

text \<open>
  C4, as amended. Where the tabular pipeline lists campaign and experiment
  directories, every entry it keeps is a directory whose name does not start with a
  dot. At the leaf level neither pipeline filters: every entry of the directory whose
  name matches the pattern is returned by the glob, hidden or not, every file so found
  in an experiment that is converted is read, and every file found by the array
  pipeline is checked for its output and converted or skipped.
\<close>

theorem discovery_filters_directories_only:
  "(directories_matching d pat st = Inr (dirs, st1)
    \<longrightarrow> (\<forall>p\<in>set dirs. is_dir (fs st) p \<and> \<not> startswith (path_name p) ''.''))
   \<and> (is_dir files d \<and> (d @ [n], x) \<in> set files \<and> fnmatch n leaf
      \<and> glob files d leaf = Inr found
    \<longrightarrow> d @ [n] \<in> set found)
   \<and> (\<not> (path_exists (fs cs) (with_suffix e ''.parquet'') \<and> \<not> overwrite args)
      \<and> glob (fs cs) e (csv_pattern args) = Inr csvs
      \<and> convert_experiment lib args e cs = Inr cs'
    \<longrightarrow> (\<forall>f\<in>set csvs. ReadCsv f \<in> set (calls cs')))
   \<and> (glob (fs rs) (start_directory nargs) (npy_pattern nargs) = Inr npys
      \<and> npy_scan lib nargs npy_format rs = Inr rs'
    \<longrightarrow> (\<forall>f\<in>set npys. Exists (with_suffix f ''.parquet'') \<in> set (calls rs')))"
  using directories_matching_visible[of d pat st dirs st1]
    glob_returns_every_match[of files d n x leaf found]
    convert_experiment_reads_every_match[of cs e args csvs lib cs']
    npy_scan_checks_every_match[of rs nargs npys lib npy_format rs']
  by blast

theorem discovery_filters_directories_only_witness:
  "is_dir mixed_entries [''data'', ''C1''] \<and> \<not> startswith ''C1'' ''.''
   \<and> [''data'', ''.backup.npy''] \<in> set [[''data'', ''.backup.npy'']]
   \<and> ReadCsv [''data'', ''C1'', ''E1'', ''a.csv'']
        \<in> set (calls (state_of (convert_experiment sample_library sample_csv_arguments
               [''data'', ''C1'', ''E1''] (csv_initial sample_csv_arguments one_experiment))))
   \<and> ReadCsv [''data'', ''C1'', ''E1'', ''b.csv'']
        \<in> set (calls (state_of (convert_experiment sample_library sample_csv_arguments
               [''data'', ''C1'', ''E1''] (csv_initial sample_csv_arguments one_experiment))))
   \<and> Exists [''data'', ''.backup.parquet'']
        \<in> set (calls (state_of (npy_scan sample_library sample_npy_arguments default_format
               (npy_initial hidden_array))))"
proof -
  let ?E1 = "[''data'', ''C1'', ''E1'']"
  let ?cs = "csv_initial sample_csv_arguments one_experiment"
  let ?ms = "csv_initial sample_csv_arguments mixed_entries"
  let ?rs = "npy_initial hidden_array"
  let ?conv = "convert_experiment sample_library sample_csv_arguments ?E1 ?cs"
  let ?scan = "npy_scan sample_library sample_npy_arguments default_format ?rs"
  note T = discovery_filters_directories_only[of "[''data'']" "''*''" ?ms "[[''data'', ''C1'']]"
      "?ms\<lparr>calls := [Glob [''data''] ''*'', IsDir [''data'', ''.git''],
                       IsDir [''data'', ''notes.csv''], IsDir [''data'', ''C1'']]\<rparr>"
      hidden_array "''.backup.npy''" "File ''NUMPY 2x4''" "''*.[Nn][Pp][Yy]''"
      "[[''data'', ''.backup.npy'']]"
      ?cs ?E1 sample_csv_arguments
      "[[''data'', ''C1'', ''E1'', ''b.csv''], [''data'', ''C1'', ''E1'', ''a.csv'']]"
      sample_library "state_of ?conv" ?rs sample_npy_arguments "[[''data'', ''.backup.npy'']]"
      default_format "state_of ?scan"]
  have h2: "is_dir hidden_array [''data''] \<and> ([''data''] @ [''.backup.npy''], File ''NUMPY 2x4'') \<in> set hidden_array
      \<and> fnmatch ''.backup.npy'' ''*.[Nn][Pp][Yy]''
      \<and> glob hidden_array [''data''] ''*.[Nn][Pp][Yy]'' = Inr [[''data'', ''.backup.npy'']]"
    using glob_hidden_array by (simp add: is_dir_def hidden_array_def fnmatch_def class_stuff_def)
  have h3: "\<not> (path_exists (fs ?cs) (with_suffix ?E1 ''.parquet'') \<and> \<not> overwrite sample_csv_arguments)
      \<and> glob (fs ?cs) ?E1 (csv_pattern sample_csv_arguments)
          = Inr [[''data'', ''C1'', ''E1'', ''b.csv''], [''data'', ''C1'', ''E1'', ''a.csv'']]
      \<and> ?conv = Inr (state_of ?conv)"
    using glob_E1 not_raised[OF E1_converts]
    by (simp add: csv_initial_def sample_csv_arguments_def path_exists_def one_experiment_def
        with_suffix_def with_name_def path_name_def suffix_of_def)
  have h4: "glob (fs ?rs) (start_directory sample_npy_arguments) (npy_pattern sample_npy_arguments)
          = Inr [[''data'', ''.backup.npy'']]
      \<and> ?scan = Inr (state_of ?scan)"
    using glob_hidden_array not_raised[OF hidden_array_scans]
    by (simp add: npy_initial_def sample_npy_arguments_def)
  from T mixed_entries_campaigns
  have c1: "\<forall>p\<in>set [[''data'', ''C1'']]. is_dir (fs ?ms) p \<and> \<not> startswith (path_name p) ''.''"
    by blast
  from T h2 have c2: "[''data''] @ [''.backup.npy''] \<in> set [[''data'', ''.backup.npy'']]"
    by blast
  from T h3 have c3: "\<forall>f\<in>set [[''data'', ''C1'', ''E1'', ''b.csv''], [''data'', ''C1'', ''E1'', ''a.csv'']].
      ReadCsv f \<in> set (calls (state_of ?conv))"
    by blast
  from T h4 have c4: "\<forall>f\<in>set [[''data'', ''.backup.npy'']].
      Exists (with_suffix f ''.parquet'') \<in> set (calls (state_of ?scan))"
    by blast
  have out: "with_suffix [''data'', ''.backup.npy''] ''.parquet'' = [''data'', ''.backup.parquet'']"
    by (simp add: path_defs)
  from c1 c2 c3 c4 show ?thesis
    by (simp add: out csv_initial_def path_name_def)
qed

text \<open>
  C4 as stated fails at the leaf level: pathlib's glob matches names that start with a
  dot, and neither script filters what the leaf glob returns. The array pipeline
  converts the hidden file \<open>.backup.npy\<close>.
\<close>

theorem hidden_file_is_converted:
  "startswith (path_name [''data'', ''.backup.npy'']) ''.''
   \<and> raised (npy_to_parquet sample_library sample_npy_arguments hidden_array) = None
   \<and> NumpyLoad [''data'', ''.backup.npy'']
        \<in> set (calls (state_of (npy_to_parquet sample_library sample_npy_arguments hidden_array)))
   \<and> read_bytes (fs (state_of (npy_to_parquet sample_library sample_npy_arguments hidden_array)))
        [''data'', ''.backup.parquet''] = Some ''PAR1TimeCurrentVoltageTemperaturePAR1''
   \<and> num_files_converted (state_of (npy_to_parquet sample_library sample_npy_arguments hidden_array)) = 1"
  by (simp add: raised_def state_of_def Let_def npy_defs path_defs table_defs sample_defs sample_files)

text \<open>
  C5. For an experiment with at least one matching file, the files are read in ascending
  order of their paths (the sorted glob result), the tables read in that order are the
  ones concatenated, and the table written has as many rows as its inputs together.
  When every input column has as many cells as its table has rows, so has every column
  of the result, and within each column the cells of the i-th table stand after those
  of the tables before it.
\<close>

theorem files_read_in_sorted_order_rows_stacked:
  "(\<not> (path_exists (fs st) (with_suffix e ''.parquet'') \<and> \<not> overwrite args)
      \<and> glob (fs st) e (csv_pattern args) = Inr found \<and> found \<noteq> []
      \<and> convert_experiment lib args e st = Inr st'
    \<longrightarrow> sorted (sort found) \<and> set (sort found) = set found \<and> length (sort found) = length found
        \<and> calls st' = calls st @ [Exists (with_suffix e ''.parquet''), Glob e (csv_pattern args)]
              @ map Stat (sort found) @ map ReadCsv (sort found)
              @ [ToParquet (with_suffix e ''.parquet''), Stat (with_suffix e ''.parquet'')]
        \<and> (\<exists>tables b.
              map Some tables = map (\<lambda>p. pandas_read_csv lib (fs st) p (truthy (datetimes args))
                                           (truthy (index args))) (sort found)
              \<and> to_parquet lib (columns (normalize lib args tables)) (parquet_engine args)
                   (parquet_compression args) = Some b
              \<and> read_bytes (fs st') (with_suffix e ''.parquet'') = Some b
              \<and> nrows (normalize lib args tables) = sum_list (map nrows tables)))
   \<and> nrows (normalize lib args dfs) = sum_list (map nrows dfs)
   \<and> ((\<forall>df\<in>set dfs. \<forall>c\<in>set (columns df). length (cells c) = nrows df)
    \<longrightarrow> (\<forall>c\<in>set (columns (normalize lib args dfs)). length (cells c) = sum_list (map nrows dfs)))
   \<and> ((\<forall>df\<in>set dfs. \<forall>c\<in>set (columns df). length (cells c) = nrows df)
      \<and> i < length dfs \<and> find_column n (dfs ! i) = Some c
    \<longrightarrow> take (nrows (dfs ! i)) (drop (sum_list (map nrows (take i dfs)))
            (cells (concat_column lib dfs n)))
        = map (convert lib (column_dtype c) (column_dtype (concat_column lib dfs n))) (cells c))"
proof (intro conjI impI)
  assume a: "\<not> (path_exists (fs st) (with_suffix e ''.parquet'') \<and> \<not> overwrite args)
      \<and> glob (fs st) e (csv_pattern args) = Inr found \<and> found \<noteq> []
      \<and> convert_experiment lib args e st = Inr st'"
  let ?out = "with_suffix e ''.parquet''"
  let ?st2 = "st\<lparr>calls := calls st @ [Exists ?out, Glob e (csv_pattern args)]\<rparr>"
  from a have "load_and_write lib args e (sort found) ?st2 = Inr st'"
    using convert_experiment_found[of st e args found lib] by simp
  from load_and_write_Inr[OF this] obtain tables b where
    t: "map Some tables = map (\<lambda>p. pandas_read_csv lib (fs st) p (truthy (datetimes args))
                                           (truthy (index args))) (sort found)"
    and b: "to_parquet lib (columns (normalize lib args tables)) (parquet_engine args)
                   (parquet_compression args) = Some b"
    and st': "st' = ?st2\<lparr>fs := store ?out b (fs ?st2),
                  calls := calls ?st2 @ map Stat (sort found) @ map ReadCsv (sort found)
                           @ [ToParquet ?out, Stat ?out],
                  original_sizes := original_sizes ?st2 + sum_list (map (st_size (fs ?st2)) (sort found)),
                  parquet_sizes := parquet_sizes ?st2 + length b,
                  num_files_converted := num_files_converted ?st2 + 1,
                  csv_filename := (if sort found = [] then csv_filename ?st2 else Some (last (sort found)))\<rparr>"
    by auto
  show "sorted (sort found)" "set (sort found) = set found" "length (sort found) = length found"
    by simp_all
  from st' show "calls st' = calls st @ [Exists ?out, Glob e (csv_pattern args)]
              @ map Stat (sort found) @ map ReadCsv (sort found) @ [ToParquet ?out, Stat ?out]"
    by simp
  from st' have "read_bytes (fs st') ?out = Some b"
    by (simp add: read_bytes_store)
  with t b show "\<exists>tables b.
              map Some tables = map (\<lambda>p. pandas_read_csv lib (fs st) p (truthy (datetimes args))
                                           (truthy (index args))) (sort found)
              \<and> to_parquet lib (columns (normalize lib args tables)) (parquet_engine args)
                   (parquet_compression args) = Some b
              \<and> read_bytes (fs st') ?out = Some b
              \<and> nrows (normalize lib args tables) = sum_list (map nrows tables)"
    using nrows_normalize by blast
next
  show "nrows (normalize lib args dfs) = sum_list (map nrows dfs)"
    by (rule nrows_normalize)
next
  assume "\<forall>df\<in>set dfs. \<forall>c\<in>set (columns df). length (cells c) = nrows df"
  then show "\<forall>c\<in>set (columns (normalize lib args dfs)). length (cells c) = sum_list (map nrows dfs)"
    by (rule cells_normalize_lengths)
next
  assume "(\<forall>df\<in>set dfs. \<forall>c\<in>set (columns df). length (cells c) = nrows df)
      \<and> i < length dfs \<and> find_column n (dfs ! i) = Some c"
  then show "take (nrows (dfs ! i)) (drop (sum_list (map nrows (take i dfs)))
            (cells (concat_column lib dfs n)))
        = map (convert lib (column_dtype c) (column_dtype (concat_column lib dfs n))) (cells c)"
    using concat_column_block[of dfs i n c lib] by blast
qed

theorem files_read_in_sorted_order_rows_stacked_witness:
  "sort [[''data'', ''C1'', ''E1'', ''b.csv''], [''data'', ''C1'', ''E1'', ''a.csv'']]
     = [[''data'', ''C1'', ''E1'', ''a.csv''], [''data'', ''C1'', ''E1'', ''b.csv'']]
   \<and> map (\<lambda>p. pandas_read_csv sample_library one_experiment p None (Some ''t''))
        [[''data'', ''C1'', ''E1'', ''a.csv''], [''data'', ''C1'', ''E1'', ''b.csv'']]
     = [Some (DataFrame 3 [Column ''cell v'' Float64 [4, 3, 5], Column ''cycle'' Int64 [1, 1, 1]]),
        Some (DataFrame 2 [Column ''cell v'' Float64 [6, 7], Column ''cycle'' Int64 [2, 2]])]
   \<and> calls (state_of (convert_experiment sample_library sample_csv_arguments [''data'', ''C1'', ''E1'']
        (csv_initial sample_csv_arguments one_experiment)))
     = [Exists [''data'', ''C1'', ''E1.parquet''], Glob [''data'', ''C1'', ''E1''] ''*.[Cc][Ss][Vv]'',
        Stat [''data'', ''C1'', ''E1'', ''a.csv''], Stat [''data'', ''C1'', ''E1'', ''b.csv''],
        ReadCsv [''data'', ''C1'', ''E1'', ''a.csv''], ReadCsv [''data'', ''C1'', ''E1'', ''b.csv''],
        ToParquet [''data'', ''C1'', ''E1.parquet''], Stat [''data'', ''C1'', ''E1.parquet'']]
   \<and> nrows (normalize sample_library sample_csv_arguments
        [DataFrame 3 [Column ''cell v'' Float64 [4, 3, 5], Column ''cycle'' Int64 [1, 1, 1]],
         DataFrame 2 [Column ''cell v'' Float64 [6, 7], Column ''cycle'' Int64 [2, 2]]]) = 5
   \<and> columns (normalize sample_library sample_csv_arguments
        [DataFrame 3 [Column ''cell v'' Float64 [4, 3, 5], Column ''cycle'' Int64 [1, 1, 1]],
         DataFrame 2 [Column ''cell v'' Float64 [6, 7], Column ''cycle'' Int64 [2, 2]]])
     = [Column ''cell_v'' Float32 [4, 3, 5, 6, 7], Column ''cycle'' Int32 [1, 1, 1, 2, 2]]
   \<and> take 2 (drop 3 (cells (concat_column sample_library
        [DataFrame 3 [Column ''cell v'' Float64 [4, 3, 5], Column ''cycle'' Int64 [1, 1, 1]],
         DataFrame 2 [Column ''cell v'' Float64 [6, 7], Column ''cycle'' Int64 [2, 2]]] ''cycle''))) = [2, 2]"
proof -
  let ?E1 = "[''data'', ''C1'', ''E1'']"
  let ?cs = "csv_initial sample_csv_arguments one_experiment"
  let ?conv = "convert_experiment sample_library sample_csv_arguments ?E1 ?cs"
  let ?found = "[[''data'', ''C1'', ''E1'', ''b.csv''], [''data'', ''C1'', ''E1'', ''a.csv'']]"
  let ?a = "DataFrame 3 [Column ''cell v'' Float64 [4, 3, 5 :: int], Column ''cycle'' Int64 [1, 1, 1]]"
  let ?b = "DataFrame 2 [Column ''cell v'' Float64 [6, 7 :: int], Column ''cycle'' Int64 [2, 2]]"
  note T = files_read_in_sorted_order_rows_stacked[of ?cs ?E1 sample_csv_arguments ?found
      sample_library "state_of ?conv" "[?a, ?b]" 1 "''cycle''" "Column ''cycle'' Int64 [2, 2]"]
  have srt: "sort ?found = [[''data'', ''C1'', ''E1'', ''a.csv''], [''data'', ''C1'', ''E1'', ''b.csv'']]"
    by simp
  have out: "with_suffix ?E1 ''.parquet'' = [''data'', ''C1'', ''E1.parquet'']"
    by (simp add: path_defs)
  have h1: "\<not> (path_exists (fs ?cs) (with_suffix ?E1 ''.parquet'') \<and> \<not> overwrite sample_csv_arguments)
      \<and> glob (fs ?cs) ?E1 (csv_pattern sample_csv_arguments) = Inr ?found \<and> ?found \<noteq> []
      \<and> ?conv = Inr (state_of ?conv)"
    using glob_E1 not_raised[OF E1_converts]
    by (simp add: out csv_initial_def sample_csv_arguments_def path_exists_def one_experiment_def)
  have wf: "\<forall>df\<in>set [?a, ?b]. \<forall>c\<in>set (columns df). length (cells c) = nrows df"
    by simp
  have h4: "(\<forall>df\<in>set [?a, ?b]. \<forall>c\<in>set (columns df). length (cells c) = nrows df)
      \<and> 1 < length [?a, ?b] \<and> find_column ''cycle'' ([?a, ?b] ! 1) = Some (Column ''cycle'' Int64 [2, 2])"
    by (simp add: find_column_def)
  from T[THEN conjunct1, THEN mp, OF h1] have c1: "calls (state_of ?conv) = calls ?cs
        @ [Exists (with_suffix ?E1 ''.parquet''), Glob ?E1 (csv_pattern sample_csv_arguments)]
        @ map Stat (sort ?found) @ map ReadCsv (sort ?found)
        @ [ToParquet (with_suffix ?E1 ''.parquet''), Stat (with_suffix ?E1 ''.parquet'')]"
    by (elim conjE)
  have cols: "columns (normalize sample_library sample_csv_arguments [?a, ?b])
     = [Column ''cell_v'' Float32 [4, 3, 5, 6, 7], Column ''cycle'' Int32 [1, 1, 1, 2, 2]]"
    by (simp add: normalize_def Let_def table_defs sample_defs)
  have conv: "convert sample_library = (\<lambda>from to v. v)"
    by (simp add: sample_library_def)
  from c1 have c1': "calls (state_of ?conv)
     = [Exists [''data'', ''C1'', ''E1.parquet''], Glob [''data'', ''C1'', ''E1''] ''*.[Cc][Ss][Vv]'',
        Stat [''data'', ''C1'', ''E1'', ''a.csv''], Stat [''data'', ''C1'', ''E1'', ''b.csv''],
        ReadCsv [''data'', ''C1'', ''E1'', ''a.csv''], ReadCsv [''data'', ''C1'', ''E1'', ''b.csv''],
        ToParquet [''data'', ''C1'', ''E1.parquet''], Stat [''data'', ''C1'', ''E1.parquet'']]"
    by (simp only: srt out) (simp add: csv_initial_def sample_csv_arguments_def)
  from T[THEN conjunct2, THEN conjunct1]
  have c2': "nrows (normalize sample_library sample_csv_arguments [?a, ?b]) = 5"
    by simp
  from T[THEN conjunct2, THEN conjunct2, THEN conjunct2, THEN mp, OF h4]
  have c4': "take 2 (drop 3 (cells (concat_column sample_library [?a, ?b] ''cycle''))) = [2, 2]"
    by (simp add: conv)
  have reads: "map (\<lambda>p. pandas_read_csv sample_library one_experiment p None (Some ''t''))
        [[''data'', ''C1'', ''E1'', ''a.csv''], [''data'', ''C1'', ''E1'', ''b.csv'']]
     = [Some ?a, Some ?b]"
    by (simp add: pandas_read_csv_def read_bytes_def one_experiment_def sample_defs)
  from srt reads c1' c2' cols c4' show ?thesis by (intro conjI)
qed

text \<open>
  What the two loops do, for every table: without high precision the columns of dtype
  float64 and int64 are cast to float32 and int32 and take half the width, a column of
  any other dtype is left as it is; with high precision every column is left as it is.
\<close>

lemma downcast_casts_float64_and_int64:
  "map column_dtype (columns (normalize lib args dfs)) =
     map (\<lambda>c. if high_precision args then column_dtype c
               else if column_dtype c = Float64 then Float32
               else if column_dtype c = Int64 then Int32
               else column_dtype c)
         (columns (pandas_concat lib dfs))
   \<and> map (\<lambda>c. itemsize (column_dtype c)) (columns (normalize lib args dfs)) =
     map (\<lambda>c. if \<not> high_precision args \<and> (column_dtype c = Float64 \<or> column_dtype c = Int64)
               then itemsize (column_dtype c) div 2
               else itemsize (column_dtype c))
         (columns (pandas_concat lib dfs))"
  by (auto simp: normalize_def Let_def downcast_def rename_columns_def astype_def)

lemma downcast_on_sample_table:
  "map column_dtype (columns (normalize sample_library sample_csv_arguments
        [DataFrame 3 [Column ''cell v'' Float64 [4, 3, 5], Column ''cycle'' Int64 [1, 1, 1]]]))
     = [Float32, Int32]
   \<and> map (\<lambda>c. itemsize (column_dtype c)) (columns (normalize sample_library sample_csv_arguments
        [DataFrame 3 [Column ''cell v'' Float64 [4, 3, 5], Column ''cycle'' Int64 [1, 1, 1]]]))
     = [4, 4]
   \<and> map column_dtype (columns (normalize sample_library (sample_csv_arguments\<lparr>high_precision := True\<rparr>)
        [DataFrame 3 [Column ''cell v'' Float64 [4, 3, 5], Column ''cycle'' Int64 [1, 1, 1]]]))
     = [Float64, Int64]"
proof -
  let ?a = "DataFrame 3 [Column ''cell v'' Float64 [4, 3, 5 :: int], Column ''cycle'' Int64 [1, 1, 1]]"
  have cc: "columns (pandas_concat sample_library [?a])
      = [Column ''cell v'' Float64 [4, 3, 5], Column ''cycle'' Int64 [1, 1, 1]]"
    by (simp add: table_defs sample_defs)
  have hp: "\<not> high_precision sample_csv_arguments"
    "high_precision (sample_csv_arguments\<lparr>high_precision := True\<rparr>)"
    by (simp_all add: sample_csv_arguments_def)
  from downcast_casts_float64_and_int64[of sample_library sample_csv_arguments "[?a]"]
    downcast_casts_float64_and_int64[of sample_library "sample_csv_arguments\<lparr>high_precision := True\<rparr>" "[?a]"]
  show ?thesis
    by (simp only: cc hp) simp
qed

text \<open>
  C6. Without high precision every 64-bit floating-point column and every 64-bit integer
  column of the concatenated table is to be written 32 bits wide, so that every numeric
  column takes half the width; the comment above the loops says the same (all the
  numeric columns). The loops select the dtypes float64 and int64 only. A column of
  unsigned 64-bit integers, which \<open>read_csv\<close> infers for integers above the signed
  range, is a 64-bit integer column and numeric, is selected by neither loop, and is
  written 8 bytes wide: here the file \<open>ids.csv\<close> is read so, converted without high
  precision, and its column keeps its dtype.
\<close>

theorem uint64_column_keeps_its_width:
  "\<not> high_precision (sample_csv_arguments\<lparr>index := None\<rparr>)
   \<and> pandas_read_csv sample_library big_ids [''data'', ''C1'', ''E1'', ''ids.csv'']
        (truthy (datetimes (sample_csv_arguments\<lparr>index := None\<rparr>)))
        (truthy (index (sample_csv_arguments\<lparr>index := None\<rparr>)))
       = Some (DataFrame 1 [Column ''id'' UInt64 [18446744073709551615]])
   \<and> columns (pandas_concat sample_library [DataFrame 1 [Column ''id'' UInt64 [18446744073709551615]]])
       = [Column ''id'' UInt64 [18446744073709551615]]
   \<and> is_numeric UInt64 \<and> itemsize UInt64 = 8
   \<and> columns (normalize sample_library (sample_csv_arguments\<lparr>index := None\<rparr>)
        [DataFrame 1 [Column ''id'' UInt64 [18446744073709551615]]])
       = [Column ''id'' UInt64 [18446744073709551615]]
   \<and> raised (csv_to_parquet sample_library (sample_csv_arguments\<lparr>index := None\<rparr>) big_ids) = None
   \<and> num_files_converted
        (state_of (csv_to_parquet sample_library (sample_csv_arguments\<lparr>index := None\<rparr>) big_ids)) = 1"
  by (simp add: raised_def state_of_def Let_def csv_defs path_defs table_defs sample_defs sample_files)

text \<open>
  C8. The summary at the end of a run is one of three messages: with at least one file
  converted, the count and the factor \<open>original_sizes / parquet_sizes\<close>; otherwise,
  when overwrite was not requested and at least one file was skipped, the skipped
  count; otherwise that no files were converted. The division is defined in every run
  that reaches the summary, an encoded Parquet file never being empty: then the total
  of the output sizes is positive as soon as one file is converted. In such a run of
  either script the summary is the line printed after the banner.
\<close>

theorem summary_selects_one_of_three:
  "(num_files_converted st = 0 \<or> parquet_sizes st \<noteq> 0
    \<longrightarrow> final_feedback ow st =
          Inr (print (if num_files_converted st \<noteq> 0
                      then ConvertedSmaller (num_files_converted st)
                             (of_nat (original_sizes st) / of_nat (parquet_sizes st))
                      else if \<not> ow \<and> num_files_skipped st \<noteq> 0
                      then SkippedExisting (num_files_skipped st)
                      else NoFilesConverted) st))
   \<and> ((\<forall>cols e c b. to_parquet lib cols e c = Some b \<longrightarrow> b \<noteq> [])
      \<and> csv_to_parquet lib args files = Inr cs
    \<longrightarrow> stdout cs =
          [Line (csv_banner args),
           if num_files_converted cs \<noteq> 0
           then ConvertedSmaller (num_files_converted cs)
                  (of_nat (original_sizes cs) / of_nat (parquet_sizes cs))
           else if \<not> overwrite args \<and> num_files_skipped cs \<noteq> 0
           then SkippedExisting (num_files_skipped cs)
           else NoFilesConverted]
          @ (if verbose args then [Line [], Line (join [CHR 0x0A] (empty_directories cs))] else []))
   \<and> ((\<forall>cols e c b. to_parquet lib cols e c = Some b \<longrightarrow> b \<noteq> [])
      \<and> npy_to_parquet lib nargs arrays = Inr rs
    \<longrightarrow> stdout rs =
          [Line (npy_banner nargs),
           if num_files_converted rs \<noteq> 0
           then ConvertedSmaller (num_files_converted rs)
                  (of_nat (original_sizes rs) / of_nat (parquet_sizes rs))
           else if \<not> overwrite nargs \<and> num_files_skipped rs \<noteq> 0
           then SkippedExisting (num_files_skipped rs)
           else NoFilesConverted])"
  using final_feedback_message[of st ow] csv_run_stdout[of lib args files cs]
    npy_run_stdout[of lib nargs arrays rs]
  by blast

theorem summary_selects_one_of_three_witness:
  "final_feedback False
      \<lparr>fs = [], calls = [], stdout = [], original_sizes = 58, parquet_sizes = 19,
       num_files_converted = 1, num_files_skipped = 0\<rparr>
     = Inr \<lparr>fs = [], calls = [], stdout = [ConvertedSmaller 1 (58 / 19)], original_sizes = 58,
            parquet_sizes = 19, num_files_converted = 1, num_files_skipped = 0\<rparr>
   \<and> stdout (state_of (csv_to_parquet sample_library sample_csv_arguments one_experiment))
     = [Line (csv_banner sample_csv_arguments), ConvertedSmaller 1 (58 / 19)]
   \<and> stdout (state_of (npy_to_parquet sample_library sample_npy_arguments converted_array))
     = [Line (npy_banner sample_npy_arguments), SkippedExisting 1]
   \<and> stdout (state_of (npy_to_parquet sample_library sample_npy_arguments no_arrays))
     = [Line (npy_banner sample_npy_arguments), NoFilesConverted]"
proof -
  let ?st = "\<lparr>fs = [], calls = [], stdout = [], original_sizes = 58, parquet_sizes = 19,
       num_files_converted = 1, num_files_skipped = 0\<rparr>"
  let ?csv = "csv_to_parquet sample_library sample_csv_arguments one_experiment"
  let ?npy = "npy_to_parquet sample_library sample_npy_arguments converted_array"
  let ?none = "npy_to_parquet sample_library sample_npy_arguments no_arrays"
  note A = summary_selects_one_of_three[of ?st False sample_library sample_csv_arguments
      one_experiment "state_of ?csv" sample_npy_arguments converted_array "state_of ?npy"]
  note B = summary_selects_one_of_three[of ?st False sample_library sample_csv_arguments
      one_experiment "state_of ?csv" sample_npy_arguments no_arrays "state_of ?none"]
  have h1: "num_files_converted ?st = 0 \<or> parquet_sizes ?st \<noteq> 0" by simp
  have h2: "(\<forall>cols e c b. to_parquet sample_library cols e c = Some b \<longrightarrow> b \<noteq> [])
      \<and> ?csv = Inr (state_of ?csv)"
    by (rule conjI[OF sample_encoder_nonempty not_raised[OF one_experiment_run[THEN conjunct1]]])
  have h3: "(\<forall>cols e c b. to_parquet sample_library cols e c = Some b \<longrightarrow> b \<noteq> [])
      \<and> ?npy = Inr (state_of ?npy)"
    by (rule conjI[OF sample_encoder_nonempty not_raised[OF converted_array_run[THEN conjunct1]]])
  have h4: "(\<forall>cols e c b. to_parquet sample_library cols e c = Some b \<longrightarrow> b \<noteq> [])
      \<and> ?none = Inr (state_of ?none)"
    by (rule conjI[OF sample_encoder_nonempty not_raised[OF no_arrays_run[THEN conjunct1]]])
  have flags: "\<not> verbose sample_csv_arguments" "\<not> overwrite sample_npy_arguments"
    by (simp_all add: sample_csv_arguments_def sample_npy_arguments_def)
  from A[THEN conjunct1, THEN mp, OF h1]
  have c1: "final_feedback False ?st
     = Inr \<lparr>fs = [], calls = [], stdout = [ConvertedSmaller 1 (58 / 19)], original_sizes = 58,
            parquet_sizes = 19, num_files_converted = 1, num_files_skipped = 0\<rparr>"
    by (simp add: print_def)
  from A[THEN conjunct2, THEN conjunct1, THEN mp, OF h2] one_experiment_run flags
  have c2: "stdout (state_of ?csv) = [Line (csv_banner sample_csv_arguments), ConvertedSmaller 1 (58 / 19)]"
    by simp
  from A[THEN conjunct2, THEN conjunct2, THEN mp, OF h3] converted_array_run flags
  have c3: "stdout (state_of ?npy) = [Line (npy_banner sample_npy_arguments), SkippedExisting 1]"
    by simp
  from B[THEN conjunct2, THEN conjunct2, THEN mp, OF h4] no_arrays_run flags
  have c4: "stdout (state_of ?none) = [Line (npy_banner sample_npy_arguments), NoFilesConverted]"
    by simp
  from c1 c2 c3 c4 show ?thesis by (intro conjI)
qed

end
